theory Spec2Isabelle
  imports Main "HOL-Library.Char_ord" "HOL-Library.List_Lexorder"
begin

section \<open>JavaScript strings, arrays and insertion-ordered sets\<close>

text \<open>
  JavaScript strings are modelled as \<open>string\<close>. The helpers below are the string
  and array methods the three rules call.
\<close>

definition startsWith :: "string \<Rightarrow> string \<Rightarrow> bool" where
  "startsWith s p = (take (length p) s = p)"

definition endsWith :: "string \<Rightarrow> string \<Rightarrow> bool" where
  "endsWith s p = (length p \<le> length s \<and> drop (length s - length p) s = p)"

text \<open>\<open>Array.prototype.join\<close>.\<close>

fun join :: "string \<Rightarrow> string list \<Rightarrow> string" where
  "join sep [] = []"
| "join sep [x] = x"
| "join sep (x # y # ys) = x @ sep @ join sep (y # ys)"

text \<open>
  A JavaScript \<open>Set\<close> keeps its members in insertion order and ignores the insertion of
  a member it already has: a list without duplicates, extended at the end.
\<close>

definition set_add :: "'a \<Rightarrow> 'a list \<Rightarrow> 'a list" where
  "set_add x s = (if x \<in> set s then s else s @ [x])"

definition new_Set :: "'a list \<Rightarrow> 'a list" where
  "new_Set xs = fold set_add xs []"

section \<open>The rule no-namespace-import\<close>

subsection \<open>Syntax tree nodes and diagnostics\<close>

type_synonym range = "nat \<times> nat"

datatype expr = Identifier string | OtherExpr string

record member_expr =
  m_range :: range
  object :: expr
  property :: expr

datatype specifier =
    ImportDefaultSpecifier string
  | ImportSpecifier string string
  | ImportNamespaceSpecifier string

record import_decl =
  i_range :: range
  source_value :: string
  specifiers :: "specifier list"
  importKind :: "string option"

datatype fix_op = ReplaceText range string | Remove range

record diagnostic =
  anchor :: range
  messageId :: string
  data :: "(string \<times> string) list"
  d_fix :: "fix_op option"

subsection \<open>Options\<close>

record ns_options =
  allowedLibraries :: "string list option"
  targetLibraries :: "string list option"
  checkTypeScriptTypes :: "bool option"
  allowTypeNamespaces :: "bool option"

definition opt_allowedLibraries :: "ns_options \<Rightarrow> string list" where
  "opt_allowedLibraries opts = (case allowedLibraries opts of None \<Rightarrow> [] | Some ls \<Rightarrow> ls)"

definition opt_targetLibraries :: "ns_options \<Rightarrow> string list" where
  "opt_targetLibraries opts = (case targetLibraries opts of None \<Rightarrow> [] | Some ls \<Rightarrow> ls)"

definition shouldCheckAllLibraries :: "ns_options \<Rightarrow> bool" where
  "shouldCheckAllLibraries opts = (length (opt_targetLibraries opts) = 0)"

definition opt_checkTypeScriptTypes :: "ns_options \<Rightarrow> bool" where
  "opt_checkTypeScriptTypes opts = (checkTypeScriptTypes opts \<noteq> Some False)"

definition opt_allowTypeNamespaces :: "ns_options \<Rightarrow> bool" where
  "opt_allowTypeNamespaces opts = (case allowTypeNamespaces opts of None \<Rightarrow> False | Some b \<Rightarrow> b)"

text \<open>The test \<open>/\.(ts|tsx)$/\<close> on the file name.\<close>

definition isTypeScript :: "string \<Rightarrow> bool" where
  "isTypeScript filename = (endsWith filename ''.ts'' \<or> endsWith filename ''.tsx'')"

definition shouldCheckLibrary :: "ns_options \<Rightarrow> string \<Rightarrow> bool" where
  "shouldCheckLibrary opts libraryName =
     (if libraryName \<in> set (opt_allowedLibraries opts) then False
      else shouldCheckAllLibraries opts \<or> libraryName \<in> set (opt_targetLibraries opts))"

subsection \<open>The per-file state \<open>defaultImports\<close>\<close>

record import_info =
  node :: import_decl
  localName :: string
  libraryName :: string
  isUsedAsNamespace :: bool
  namespacedProperties :: "string list"
  isTypeImport :: bool

text \<open>
  \<open>defaultImports\<close> is a \<open>Map\<close> from library name to an array of records; its entries
  are iterated in the order in which the keys were first set.
\<close>

type_synonym ns_state = "(string \<times> import_info list) list"

fun push_import :: "string \<Rightarrow> import_info \<Rightarrow> ns_state \<Rightarrow> ns_state" where
  "push_import lib imp [] = [(lib, [imp])]"
| "push_import lib imp ((k, imps) # rest) =
     (if k = lib then (k, imps @ [imp]) # rest else (k, imps) # push_import lib imp rest)"

fun is_default :: "specifier \<Rightarrow> bool" where
  "is_default (ImportDefaultSpecifier l) = True"
| "is_default s = False"

fun specifier_local :: "specifier \<Rightarrow> string" where
  "specifier_local (ImportDefaultSpecifier l) = l"
| "specifier_local (ImportSpecifier i l) = l"
| "specifier_local (ImportNamespaceSpecifier l) = l"

definition isTypeOnlyImport :: "ns_options \<Rightarrow> string \<Rightarrow> import_decl \<Rightarrow> bool" where
  "isTypeOnlyImport opts filename nd =
     (isTypeScript filename \<and> opt_checkTypeScriptTypes opts \<and> importKind nd = Some ''type'')"

definition ns_ImportDeclaration ::
  "ns_options \<Rightarrow> string \<Rightarrow> import_decl \<Rightarrow> ns_state \<Rightarrow> ns_state" where
  "ns_ImportDeclaration opts filename nd st =
     (if \<not> shouldCheckLibrary opts (source_value nd) then st
      else case find is_default (specifiers nd) of
        None \<Rightarrow> st
      | Some defaultSpecifier \<Rightarrow>
          if isTypeOnlyImport opts filename nd \<and> opt_allowTypeNamespaces opts then st
          else push_import (source_value nd)
                 \<lparr> node = nd, localName = specifier_local defaultSpecifier,
                   libraryName = source_value nd, isUsedAsNamespace = False,
                   namespacedProperties = [], isTypeImport = isTypeOnlyImport opts filename nd \<rparr>
                 st)"

subsection \<open>Member expressions: inline diagnostics\<close>

definition inline_diagnostic ::
  "member_expr \<Rightarrow> string \<Rightarrow> string \<Rightarrow> string \<Rightarrow> bool \<Rightarrow> diagnostic" where
  "inline_diagnostic nd objectName propertyName lib isType =
     \<lparr> anchor = m_range nd,
       messageId = (if isType then ''noTypeNamespaceUsage'' else ''noNamespaceUsage''),
       data = [(''objectName'', objectName), (''propertyName'', propertyName),
               (''libraryName'', lib)],
       d_fix = Some (ReplaceText (m_range nd) propertyName) \<rparr>"

text \<open>
  \<open>imports.find\<close> followed by the in-place update of the record found: the first record
  whose local name is the object name is marked and gets the property name.
\<close>

fun mark_import :: "string \<Rightarrow> string \<Rightarrow> import_info list \<Rightarrow> import_info list" where
  "mark_import objectName propertyName [] = []"
| "mark_import objectName propertyName (imp # imps) =
     (if localName imp = objectName
      then imp\<lparr> isUsedAsNamespace := True,
                namespacedProperties := set_add propertyName (namespacedProperties imp) \<rparr> # imps
      else imp # mark_import objectName propertyName imps)"

text \<open>The loop over the entries of \<open>defaultImports\<close>, left at the first library with a match.\<close>

fun member_loop ::
  "member_expr \<Rightarrow> string \<Rightarrow> string \<Rightarrow> ns_state \<Rightarrow> ns_state \<times> diagnostic list" where
  "member_loop nd objectName propertyName [] = ([], [])"
| "member_loop nd objectName propertyName ((lib, imps) # rest) =
     (case find (\<lambda>imp. localName imp = objectName) imps of
        Some defaultImport \<Rightarrow>
          ((lib, mark_import objectName propertyName imps) # rest,
           [inline_diagnostic nd objectName propertyName lib (isTypeImport defaultImport)])
      | None \<Rightarrow>
          (let (rest', ds) = member_loop nd objectName propertyName rest
           in ((lib, imps) # rest', ds)))"

definition ns_MemberExpression :: "member_expr \<Rightarrow> ns_state \<Rightarrow> ns_state \<times> diagnostic list" where
  "ns_MemberExpression nd st =
     (case (object nd, property nd) of
        (Identifier objectName, Identifier propertyName) \<Rightarrow>
          member_loop nd objectName propertyName st
      | _ \<Rightarrow> (st, []))"

subsection \<open>End of traversal: summary diagnostics\<close>

definition propertiesString :: "string list \<Rightarrow> string" where
  "propertiesString propertiesArray =
     join '', '' (take 3 propertiesArray) @ (if length propertiesArray > 3 then '', ...'' else '''')"

fun imported_names :: "specifier list \<Rightarrow> string list" where
  "imported_names [] = []"
| "imported_names (ImportSpecifier imported l # ss) = imported # imported_names ss"
| "imported_names (s # ss) = imported_names ss"

definition allNeededNamedImports :: "import_info \<Rightarrow> string list" where
  "allNeededNamedImports imp =
     new_Set (new_Set (imported_names (specifiers (node imp))) @ namespacedProperties imp)"

definition newImportStatement :: "string \<Rightarrow> import_info \<Rightarrow> string" where
  "newImportStatement lib imp =
     (if isTypeImport imp then ''import type'' else ''import'') @ '' { ''
       @ join '', '' (sort (allNeededNamedImports imp)) @ '' } from '' @ [CHR 0x27] @ lib
       @ [CHR 0x27] @ '';''"

definition summary_fix :: "string \<Rightarrow> import_info \<Rightarrow> fix_op" where
  "summary_fix lib imp =
     (if length (allNeededNamedImports imp) = 0 then Remove (i_range (node imp))
      else ReplaceText (i_range (node imp)) (newImportStatement lib imp))"

definition summary_diagnostic :: "string \<Rightarrow> import_info \<Rightarrow> diagnostic" where
  "summary_diagnostic lib imp =
     \<lparr> anchor = i_range (node imp),
       messageId = (if isTypeImport imp then ''noDefaultTypeImportForNamespace''
                    else ''noDefaultImportForNamespace''),
       data = [(''importName'', localName imp), (''libraryName'', lib),
               (''properties'', propertiesString (namespacedProperties imp))],
       d_fix = Some (summary_fix lib imp) \<rparr>"

definition ns_Program_exit :: "ns_state \<Rightarrow> diagnostic list" where
  "ns_Program_exit st =
     concat (map (\<lambda>(lib, imps).
        map (summary_diagnostic lib) (filter isUsedAsNamespace imps)) st)"

subsection \<open>One traversal of a file\<close>

datatype ns_event = EImport import_decl | EMember member_expr

fun ns_step :: "ns_options \<Rightarrow> string \<Rightarrow> ns_state \<times> diagnostic list \<Rightarrow> ns_event
    \<Rightarrow> ns_state \<times> diagnostic list" where
  "ns_step opts filename (st, out) (EImport nd) = (ns_ImportDeclaration opts filename nd st, out)"
| "ns_step opts filename (st, out) (EMember nd) =
     (let (st', ds) = ns_MemberExpression nd st in (st', out @ ds))"

definition ns_traverse :: "ns_options \<Rightarrow> string \<Rightarrow> ns_event list \<Rightarrow> ns_state \<times> diagnostic list" where
  "ns_traverse opts filename evs = foldl (ns_step opts filename) ([], []) evs"

definition ns_run :: "ns_options \<Rightarrow> string \<Rightarrow> ns_event list \<Rightarrow> diagnostic list" where
  "ns_run opts filename evs =
     (let (st, out) = ns_traverse opts filename evs in out @ ns_Program_exit st)"

subsection \<open>Vocabulary for statements about a traversal\<close>

text \<open>
  The guard of the import visitor: the declaration gets a record exactly when its library is
  checked, it has a default specifier, and it is not a type-only import skipped by
  \<open>allowTypeNamespaces\<close>.
\<close>

definition records_import :: "ns_options \<Rightarrow> string \<Rightarrow> import_decl \<Rightarrow> bool" where
  "records_import opts filename nd =
     (shouldCheckLibrary opts (source_value nd) \<and> find is_default (specifiers nd) \<noteq> None
      \<and> \<not> (isTypeOnlyImport opts filename nd \<and> opt_allowTypeNamespaces opts))"

text \<open>A member expression \<open>l.p\<close> with both parts plain identifiers, and its \<open>p\<close>.\<close>

definition is_access :: "string \<Rightarrow> member_expr \<Rightarrow> bool" where
  "is_access l nd = (case (object nd, property nd) of
      (Identifier objectName, Identifier propertyName) \<Rightarrow> objectName = l | _ \<Rightarrow> False)"

definition accessed_name :: "member_expr \<Rightarrow> string" where
  "accessed_name nd = (case property nd of Identifier propertyName \<Rightarrow> propertyName | _ \<Rightarrow> [])"

text \<open>The evidence of every record marked as used is not empty.\<close>

definition evidence_ok :: "ns_state \<Rightarrow> bool" where
  "evidence_ok st =
     list_all (\<lambda>(lib, imps).
        list_all (\<lambda>imp. isUsedAsNamespace imp \<longrightarrow> namespacedProperties imp \<noteq> []) imps) st"

fun is_replacement :: "fix_op option \<Rightarrow> bool" where
  "is_replacement (Some (ReplaceText r t)) = True"
| "is_replacement f = False"

text \<open>The import declaration creates a record whose local name is \<open>l\<close>.\<close>

fun records_default :: "ns_options \<Rightarrow> string \<Rightarrow> string \<Rightarrow> ns_event \<Rightarrow> bool" where
  "records_default opts filename l (EImport d) =
     (records_import opts filename d
      \<and> find is_default (specifiers d) = Some (ImportDefaultSpecifier l))"
| "records_default opts filename l (EMember m) = False"

text \<open>No record of the state has the local name \<open>l\<close>.\<close>

definition no_record_of :: "string \<Rightarrow> ns_state \<Rightarrow> bool" where
  "no_record_of l st = list_all (\<lambda>(lib, imps). list_all (\<lambda>imp. localName imp \<noteq> l) imps) st"

text \<open>The member expressions of a file, in traversal order.\<close>

fun members :: "ns_event list \<Rightarrow> member_expr list" where
  "members [] = []"
| "members (EImport d # es) = members es"
| "members (EMember m # es) = m # members es"

text \<open>
  A member expression that can only concern the binding \<open>l\<close>: its object is \<open>l\<close>, or a name
  for which no import declaration of the file creates a record, or it has another shape.
\<close>

fun accesses_only ::
  "ns_options \<Rightarrow> string \<Rightarrow> string \<Rightarrow> ns_event list \<Rightarrow> ns_event \<Rightarrow> bool" where
  "accesses_only opts filename l evs (EImport d) = True"
| "accesses_only opts filename l evs (EMember m) =
     (case (object m, property m) of
        (Identifier objectName, Identifier propertyName) \<Rightarrow>
          objectName = l \<or> \<not> list_ex (records_default opts filename objectName) evs
      | _ \<Rightarrow> True)"

fun no_access_of :: "string \<Rightarrow> ns_event \<Rightarrow> bool" where
  "no_access_of l (EImport d) = True"
| "no_access_of l (EMember m) = (\<not> is_access l m)"

text \<open>The records of the binding \<open>l\<close> in a state, and the fact that no other record is marked.\<close>

definition records_of :: "string \<Rightarrow> ns_state \<Rightarrow> ns_state" where
  "records_of l st =
     filter (\<lambda>(lib, imps). imps \<noteq> [])
       (map (\<lambda>(lib, imps). (lib, filter (\<lambda>imp. localName imp = l) imps)) st)"

definition others_unused :: "string \<Rightarrow> ns_state \<Rightarrow> bool" where
  "others_unused l st =
     list_all (\<lambda>(lib, imps).
        list_all (\<lambda>imp. localName imp \<noteq> l \<longrightarrow> \<not> isUsedAsNamespace imp) imps) st"

text \<open>A name for which no import declaration of the file creates a record has none.\<close>

definition unbound_unrecorded ::
  "ns_options \<Rightarrow> string \<Rightarrow> ns_event list \<Rightarrow> ns_state \<Rightarrow> bool" where
  "unbound_unrecorded opts filename evs st =
     (\<forall>x. \<not> list_ex (records_default opts filename x) evs \<longrightarrow> no_record_of x st)"

text \<open>The module name \<open>a';import _ from 'b\<close>, which a double-quoted literal can hold.\<close>

definition quote_module :: string where
  "quote_module = ''a'' @ [CHR 0x27] @ '';import _ from '' @ [CHR 0x27] @ ''b''"

section \<open>The rule no-arrow-components\<close>

subsection \<open>Syntax tree nodes\<close>

text \<open>
  The node kinds the rule looks at: the initializer of a declarator, the body of an arrow
  function, the statements of a block and the argument of a return statement. Every other
  kind is \<open>OtherNode\<close> with its type tag.
\<close>

datatype js_node =
    ArrowFunctionExpression js_node
  | FunctionExpression
  | CallExpression "js_node list"
  | JSXElement
  | BlockStatement "js_node list"
  | ReturnStatement "js_node option"
  | OtherNode string

record declarator =
  d_range :: range
  d_id :: expr
  init :: "js_node option"

record variable_declaration =
  parent_type :: string
  declarations :: "declarator list"

record arrow_options =
  allowArrowFunctions :: "bool option"
  checkTypeScript :: "bool option"

definition opt_allowArrowFunctions :: "arrow_options \<Rightarrow> bool" where
  "opt_allowArrowFunctions opts = (case allowArrowFunctions opts of None \<Rightarrow> False | Some b \<Rightarrow> b)"

definition opt_checkTypeScript :: "arrow_options \<Rightarrow> bool" where
  "opt_checkTypeScript opts = (checkTypeScript opts \<noteq> Some False)"

subsection \<open>Classification\<close>

definition isUpperAZ :: "char \<Rightarrow> bool" where
  "isUpperAZ c = (CHR ''A'' \<le> c \<and> c \<le> CHR ''Z'')"

definition isAlphaNum :: "char \<Rightarrow> bool" where
  "isAlphaNum c = ((CHR ''a'' \<le> c \<and> c \<le> CHR ''z'') \<or> (CHR ''A'' \<le> c \<and> c \<le> CHR ''Z'')
                   \<or> (CHR ''0'' \<le> c \<and> c \<le> CHR ''9''))"

text \<open>The test \<open>/^[A-Z][a-zA-Z0-9]*$/\<close>.\<close>

fun isPascalCase :: "string \<Rightarrow> bool" where
  "isPascalCase [] = False"
| "isPascalCase (c # cs) = (isUpperAZ c \<and> list_all isAlphaNum cs)"

fun returns_jsx :: "js_node \<Rightarrow> bool" where
  "returns_jsx (ReturnStatement (Some JSXElement)) = True"
| "returns_jsx stmt = False"

definition isReactComponent :: "arrow_options \<Rightarrow> string \<Rightarrow> declarator \<Rightarrow> string \<Rightarrow> bool" where
  "isReactComponent opts filename nd name =
     (if \<not> isPascalCase name then False
      else if isTypeScript filename \<and> opt_checkTypeScript opts then
        (case init nd of
           Some (ArrowFunctionExpression body) \<Rightarrow>
             (case body of
                JSXElement \<Rightarrow> True
              | BlockStatement stmts \<Rightarrow> list_ex returns_jsx stmts
              | _ \<Rightarrow> isPascalCase name)
         | _ \<Rightarrow> isPascalCase name)
      else isPascalCase name)"

subsection \<open>The visitor of variable declarations\<close>

fun is_function_value :: "js_node \<Rightarrow> bool" where
  "is_function_value (ArrowFunctionExpression body) = True"
| "is_function_value FunctionExpression = True"
| "is_function_value n = False"

text \<open>A call whose first argument is an arrow function or a function expression.\<close>

fun is_hoc_call :: "js_node \<Rightarrow> bool" where
  "is_hoc_call (CallExpression (a # as)) = is_function_value a"
| "is_hoc_call n = False"

definition arrow_report :: "arrow_options \<Rightarrow> string \<Rightarrow> declarator \<Rightarrow> string \<Rightarrow> bool \<Rightarrow> diagnostic" where
  "arrow_report opts filename decl name component =
     \<lparr> anchor = d_range decl,
       messageId =
         (if component
          then (if isTypeScript filename \<and> opt_checkTypeScript opts
                then ''tsArrowComponent'' else ''arrowComponent'')
          else (if isTypeScript filename \<and> opt_checkTypeScript opts
                then ''tsArrowFunction'' else ''arrowFunction'')),
       data = [(''name'', name)],
       d_fix = None \<rparr>"

text \<open>
  The loop over \<open>node.declarations\<close>. A \<open>continue\<close> goes on with the remaining declarators;
  a \<open>return\<close> leaves the visitor, so the result is the diagnostics reported so far.
\<close>

fun declarators_loop :: "arrow_options \<Rightarrow> string \<Rightarrow> declarator list \<Rightarrow> diagnostic list" where
  "declarators_loop opts filename [] = []"
| "declarators_loop opts filename (decl # rest) =
     (case (d_id decl, init decl) of
        (Identifier name, Some ini) \<Rightarrow>
          (let isComponent = isReactComponent opts filename decl name in
           if isComponent \<and> is_hoc_call ini then []
           else if isComponent \<and> is_function_value ini
             then [arrow_report opts filename decl name True]
           else if \<not> isComponent \<and> \<not> opt_allowArrowFunctions opts \<and> is_function_value ini
             then arrow_report opts filename decl name False # declarators_loop opts filename rest
           else declarators_loop opts filename rest)
      | _ \<Rightarrow> declarators_loop opts filename rest)"

definition arrow_VariableDeclaration ::
  "arrow_options \<Rightarrow> string \<Rightarrow> variable_declaration \<Rightarrow> diagnostic list" where
  "arrow_VariableDeclaration opts filename nd =
     (if parent_type nd \<noteq> ''Program'' \<and> parent_type nd \<noteq> ''ExportNamedDeclaration'' then []
      else declarators_loop opts filename (declarations nd))"

section \<open>The path module of Node.js on POSIX\<close>

text \<open>
  The alias rule computes with \<open>path.resolve\<close>, \<open>path.relative\<close>, \<open>path.dirname\<close> and
  \<open>path.join\<close>. They are library functions of the platform; the definitions below follow
  their POSIX implementation, segment by segment.
\<close>

text \<open>\<open>String.prototype.split\<close> with a separator of one character.\<close>

fun js_split :: "char \<Rightarrow> string \<Rightarrow> string list" where
  "js_split sep [] = [[]]"
| "js_split sep (c # cs) =
     (if c = sep then [] # js_split sep cs
      else case js_split sep cs of
             w # ws \<Rightarrow> (c # w) # ws
           | [] \<Rightarrow> [[c]])"

text \<open>
  \<open>normalizeString\<close>: empty segments and \<open>.\<close> are dropped; \<open>..\<close> removes the segment
  before it, and is kept only above the start of a relative path.
\<close>

fun normalize_segments :: "bool \<Rightarrow> string list \<Rightarrow> string list \<Rightarrow> string list" where
  "normalize_segments allowAboveRoot res [] = res"
| "normalize_segments allowAboveRoot res (s # ss) =
     (if s = [] \<or> s = ''.'' then normalize_segments allowAboveRoot res ss
      else if s = ''..'' then
        (if res \<noteq> [] \<and> last res \<noteq> ''..'' then normalize_segments allowAboveRoot (butlast res) ss
         else if allowAboveRoot then normalize_segments allowAboveRoot (res @ [''..'']) ss
         else normalize_segments allowAboveRoot res ss)
      else normalize_segments allowAboveRoot (res @ [s]) ss)"

definition normalizeString :: "string \<Rightarrow> bool \<Rightarrow> string" where
  "normalizeString p allowAboveRoot =
     join ''/'' (normalize_segments allowAboveRoot [] (js_split CHR ''/'' p))"

text \<open>
  \<open>path.resolve\<close>: the arguments are taken from the last to the first until one is
  absolute; the working directory of the process, \<open>pcwd\<close>, comes after the first.
\<close>

fun resolve_loop :: "string list \<Rightarrow> string \<Rightarrow> string \<times> bool" where
  "resolve_loop [] resolvedPath = (resolvedPath, False)"
| "resolve_loop (p # ps) resolvedPath =
     (if p = [] then resolve_loop ps resolvedPath
      else if hd p = CHR ''/'' then (p @ ''/'' @ resolvedPath, True)
      else resolve_loop ps (p @ ''/'' @ resolvedPath))"

definition path_resolve :: "string \<Rightarrow> string list \<Rightarrow> string" where
  "path_resolve pcwd args =
     (let (resolvedPath, resolvedAbsolute) = resolve_loop (rev args @ [pcwd]) [];
          n = normalizeString resolvedPath (\<not> resolvedAbsolute)
      in if resolvedAbsolute then CHR ''/'' # n else if n \<noteq> [] then n else ''.'')"

text \<open>The segments of a resolved path.\<close>

definition segments :: "string \<Rightarrow> string list" where
  "segments p = filter (\<lambda>s. s \<noteq> []) (js_split CHR ''/'' p)"

fun common_prefix_length :: "'a list \<Rightarrow> 'a list \<Rightarrow> nat" where
  "common_prefix_length (x # xs) (y # ys) = (if x = y then Suc (common_prefix_length xs ys) else 0)"
| "common_prefix_length xs ys = 0"

text \<open>
  \<open>path.relative\<close>: both paths are resolved; the result climbs from \<open>from\<close> to the last
  common directory and descends to \<open>to\<close>.
\<close>

definition path_relative :: "string \<Rightarrow> string \<Rightarrow> string \<Rightarrow> string" where
  "path_relative pcwd from to =
     (if from = to then []
      else let from' = path_resolve pcwd [from]; to' = path_resolve pcwd [to]
           in if from' = to' then []
              else let fs = segments from'; ts = segments to';
                       n = common_prefix_length fs ts
                   in join ''/'' (replicate (length fs - n) ''..'' @ drop n ts))"

text \<open>
  \<open>path.dirname\<close>: trailing slashes are skipped, then the text up to the last slash
  before the final segment is returned; the first character is never cut.
\<close>

definition path_dirname :: "string \<Rightarrow> string" where
  "path_dirname p =
     (if p = [] then ''.''
      else let hasRoot = (hd p = CHR ''/'');
               r = dropWhile (\<lambda>c. c \<noteq> CHR ''/'') (dropWhile (\<lambda>c. c = CHR ''/'') (rev (tl p)))
           in if r = [] then (if hasRoot then ''/'' else ''.'')
              else if hasRoot \<and> length r = 1 then ''//''
              else take (length r) p)"

text \<open>\<open>path.normalize\<close> and \<open>path.join\<close>.\<close>

definition path_normalize :: "string \<Rightarrow> string" where
  "path_normalize p =
     (if p = [] then ''.''
      else let isAbsolute = (hd p = CHR ''/'');
               trailingSeparator = (last p = CHR ''/'');
               n = normalizeString p (\<not> isAbsolute)
           in if n = [] then (if isAbsolute then ''/'' else if trailingSeparator then ''./'' else ''.'')
              else (if isAbsolute then ''/'' else []) @ n @ (if trailingSeparator then ''/'' else []))"

definition path_join :: "string list \<Rightarrow> string" where
  "path_join args =
     (let joined = join ''/'' (filter (\<lambda>a. a \<noteq> []) args)
      in if joined = [] then ''.'' else path_normalize joined)"

section \<open>The rule enforce-path-alias\<close>

subsection \<open>Options and defaults\<close>

text \<open>
  A JavaScript object with string keys is the list of its entries in the order in which
  \<open>Object.entries\<close> and \<open>Object.assign\<close> enumerate them: the keys that are array indices
  first, in ascending order, then the other keys in the order of their creation.
\<close>

type_synonym 'v obj = "(string \<times> 'v) list"

definition is_digit :: "char \<Rightarrow> bool" where
  "is_digit c = (CHR ''0'' \<le> c \<and> c \<le> CHR ''9'')"

text \<open>
  An array index is a key that is the decimal numeral, without leading zeros, of an integer
  below \<open>4294967295\<close>. Two such numerals are ordered as numbers when
  they are ordered by length first and as strings second.
\<close>

definition is_array_index :: "string \<Rightarrow> bool" where
  "is_array_index k =
     (k \<noteq> [] \<and> list_all is_digit k \<and> (k = ''0'' \<or> hd k \<noteq> CHR ''0'')
      \<and> (length k < 10 \<or> (length k = 10 \<and> k < ''4294967295'')))"

definition index_less :: "string \<Rightarrow> string \<Rightarrow> bool" where
  "index_less k k' = (length k < length k' \<or> (length k = length k' \<and> k < k'))"

record alias_options =
  mode :: "string option"
  configFile :: "string option"
  paths :: "string list obj option"
  baseUrl :: "string option"
  fallbackBaseUrl :: "string option"
  exclude :: "string list option"
  supportedExtensions :: "string list option"
  includeDeclarationFiles :: "bool option"

text \<open>
  An optional string as a condition, and \<open>x || d\<close>: the missing and the empty string are
  falsy.
\<close>

fun truthy :: "string option \<Rightarrow> string option" where
  "truthy None = None"
| "truthy (Some s) = (if s = [] then None else Some s)"

definition or_string :: "string option \<Rightarrow> string \<Rightarrow> string" where
  "or_string x d = (case truthy x of None \<Rightarrow> d | Some s \<Rightarrow> s)"

definition opt_mode :: "alias_options \<Rightarrow> string" where
  "opt_mode opts = or_string (mode opts) ''direct-children''"

definition opt_configFile :: "alias_options \<Rightarrow> string" where
  "opt_configFile opts = or_string (configFile opts) ''tsconfig.json''"

definition opt_fallbackBaseUrl :: "alias_options \<Rightarrow> string" where
  "opt_fallbackBaseUrl opts = or_string (fallbackBaseUrl opts) ''./src''"

definition opt_excludeFolders :: "alias_options \<Rightarrow> string list" where
  "opt_excludeFolders opts = (case exclude opts of None \<Rightarrow> [] | Some xs \<Rightarrow> xs)"

definition opt_supportedExtensions :: "alias_options \<Rightarrow> string list" where
  "opt_supportedExtensions opts =
     (case supportedExtensions opts of
        None \<Rightarrow> [''.js'', ''.jsx'', ''.ts'', ''.tsx'', ''.vue'', ''.svelte'']
      | Some xs \<Rightarrow> xs)"

definition opt_includeDeclarationFiles :: "alias_options \<Rightarrow> bool" where
  "opt_includeDeclarationFiles opts =
     (case includeDeclarationFiles opts of None \<Rightarrow> False | Some b \<Rightarrow> b)"

subsection \<open>The context of the rule and the file system\<close>

text \<open>
  The file name and the working directory that the host gives the rule, and
  \<open>process_cwd\<close>, the working directory of the process, which \<open>path.resolve\<close> falls
  back to when none of its arguments is absolute.
\<close>

record rule_context =
  getFilename :: string
  getCwd :: string
  process_cwd :: string

text \<open>
  A project configuration as read by \<open>JSON.parse\<close>: the fields the rule looks at. The
  \<open>path\<close> of a reference is absent when the entry has none.
\<close>

record tsconfig =
  compilerOptions_baseUrl :: "string option"
  compilerOptions_paths :: "string list obj option"
  references :: "string option list option"

text \<open>
  The file system and the platform as the rule uses them. \<open>readJSON p\<close> is
  \<open>JSON.parse(fs.readFileSync(p, "utf8"))\<close>, \<open>None\<close> when either call throws or the value
  is \<open>null\<close>, whose properties cannot be read. \<open>viteAliases p\<close> is the alias table that
  the textual scan of the bundler configuration at \<open>p\<close> yields, empty when the file
  cannot be read or nothing matches; the scan itself is not modelled. \<open>regexpRejects s\<close>
  says whether the platform refuses \<open>s\<close> as the source of a regular expression.
\<close>

record world =
  existsSync :: "string \<Rightarrow> bool"
  isFile :: "string \<Rightarrow> bool"
  isDirectory :: "string \<Rightarrow> bool"
  readdirSync :: "string \<Rightarrow> string list"
  readJSON :: "string \<Rightarrow> tsconfig option"
  viteAliases :: "string \<Rightarrow> string list obj"
  regexpRejects :: "string \<Rightarrow> bool"

subsection \<open>Base directory\<close>

fun probe_commonDirs ::
  "alias_options \<Rightarrow> rule_context \<Rightarrow> world \<Rightarrow> string list \<Rightarrow> string option" where
  "probe_commonDirs opts ctx w [] = None"
| "probe_commonDirs opts ctx w (dir # dirs) =
     (let dirPath = path_join [getCwd ctx, if dir = ''.'' then [] else dir]
      in if existsSync w dirPath \<and> isDirectory w dirPath
            \<and> (list_ex (\<lambda>file. list_ex (\<lambda>ext. endsWith file ext) (opt_supportedExtensions opts)
                                \<and> \<not> startsWith file ''.'') (readdirSync w dirPath)
                \<or> dir = ''src'' \<or> dir = ''app'')
         then Some (if dir = ''.'' then ''./'' else ''./'' @ dir)
         else probe_commonDirs opts ctx w dirs)"

definition tsconfig_baseUrl :: "alias_options \<Rightarrow> rule_context \<Rightarrow> world \<Rightarrow> string option" where
  "tsconfig_baseUrl opts ctx w =
     (let tsconfigPath = path_join [getCwd ctx, opt_configFile opts]
      in if existsSync w tsconfigPath
         then (case readJSON w tsconfigPath of
                 None \<Rightarrow> None
               | Some t \<Rightarrow> truthy (compilerOptions_baseUrl t))
         else None)"

definition detectBaseUrl :: "alias_options \<Rightarrow> rule_context \<Rightarrow> world \<Rightarrow> string" where
  "detectBaseUrl opts ctx w =
     (case truthy (baseUrl opts) of
        Some userBaseUrl \<Rightarrow> userBaseUrl
      | None \<Rightarrow>
          (case tsconfig_baseUrl opts ctx w of
             Some b \<Rightarrow> b
           | None \<Rightarrow>
               (case probe_commonDirs opts ctx w
                       (if isTypeScript (getFilename ctx) then [''src'', ''lib'', ''app'', ''.'']
                        else [''src'', ''app'', ''lib'', ''.'']) of
                  Some b \<Rightarrow> b
                | None \<Rightarrow> opt_fallbackBaseUrl opts)))"

subsection \<open>Path mappings\<close>

text \<open>
  Assignment to a property: the value of an existing key is replaced where it stands; a new
  key that is an array index takes its place among the array indices, any other new key
  goes to the end. \<open>Object.assign\<close> assigns the entries of the source in order.
\<close>

fun obj_replace :: "string \<Rightarrow> 'v \<Rightarrow> 'v obj \<Rightarrow> 'v obj" where
  "obj_replace k v [] = []"
| "obj_replace k v ((k', v') # rest) =
     (if k' = k then (k, v) # rest else (k', v') # obj_replace k v rest)"

fun obj_insert :: "string \<Rightarrow> 'v \<Rightarrow> 'v obj \<Rightarrow> 'v obj" where
  "obj_insert k v [] = [(k, v)]"
| "obj_insert k v ((k', v') # rest) =
     (if is_array_index k \<and> \<not> (is_array_index k' \<and> index_less k' k)
      then (k, v) # (k', v') # rest
      else (k', v') # obj_insert k v rest)"

definition obj_set :: "string \<Rightarrow> 'v \<Rightarrow> 'v obj \<Rightarrow> 'v obj" where
  "obj_set k v ob = (if k \<in> set (map fst ob) then obj_replace k v ob else obj_insert k v ob)"

definition Object_assign :: "'v obj \<Rightarrow> 'v obj \<Rightarrow> 'v obj" where
  "Object_assign target src = fold (\<lambda>(k, v). obj_set k v) src target"

datatype js_error = TypeError | SyntaxError

text \<open>
  One round of the loop over \<open>tsconfig.references\<close>. A reference without a \<open>path\<close> makes
  \<open>path.resolve\<close> throw outside the inner \<open>try\<close>; a referenced configuration that cannot
  be read or parsed is skipped by the inner \<open>catch\<close>.
\<close>

definition refTsconfigPath :: "rule_context \<Rightarrow> world \<Rightarrow> string \<Rightarrow> string \<Rightarrow> string" where
  "refTsconfigPath ctx w projectRoot p =
     (let refPath = path_resolve (process_cwd ctx) [projectRoot, p]
      in if existsSync w refPath \<and> isFile w refPath then refPath
         else path_join [refPath, ''tsconfig.json''])"

definition merge_reference ::
  "rule_context \<Rightarrow> world \<Rightarrow> string \<Rightarrow> string \<Rightarrow> string list obj \<Rightarrow> string list obj" where
  "merge_reference ctx w projectRoot p allPaths =
     (if existsSync w (refTsconfigPath ctx w projectRoot p)
      then (case readJSON w (refTsconfigPath ctx w projectRoot p) of
              None \<Rightarrow> allPaths
            | Some refTsconfig \<Rightarrow>
                (case compilerOptions_paths refTsconfig of
                   None \<Rightarrow> allPaths
                 | Some ps \<Rightarrow> Object_assign allPaths ps))
      else allPaths)"

fun references_loop ::
  "rule_context \<Rightarrow> world \<Rightarrow> string \<Rightarrow> string option list \<Rightarrow> string list obj
    \<Rightarrow> js_error + string list obj" where
  "references_loop ctx w projectRoot [] allPaths = Inr allPaths"
| "references_loop ctx w projectRoot (None # refs) allPaths = Inl TypeError"
| "references_loop ctx w projectRoot (Some p # refs) allPaths =
     references_loop ctx w projectRoot refs (merge_reference ctx w projectRoot p allPaths)"

definition resolveProjectReferences :: "rule_context \<Rightarrow> world \<Rightarrow> string \<Rightarrow> string list obj" where
  "resolveProjectReferences ctx w tsconfigPath =
     (case readJSON w tsconfigPath of
        None \<Rightarrow> []
      | Some t \<Rightarrow>
          (case references t of
             Some refs \<Rightarrow>
               (case references_loop ctx w (path_dirname tsconfigPath) refs
                       (case compilerOptions_paths t of
                          None \<Rightarrow> []
                        | Some ps \<Rightarrow> Object_assign [] ps) of
                  Inl e \<Rightarrow> []
                | Inr allPaths \<Rightarrow> allPaths)
           | None \<Rightarrow> (case compilerOptions_paths t of None \<Rightarrow> [] | Some ps \<Rightarrow> ps)))"

fun vite_loop :: "world \<Rightarrow> string list \<Rightarrow> string list obj" where
  "vite_loop w [] = []"
| "vite_loop w (viteConfigPath # rest) =
     (if existsSync w viteConfigPath \<and> length (viteAliases w viteConfigPath) > 0
      then viteAliases w viteConfigPath
      else vite_loop w rest)"

definition getPathMappings :: "alias_options \<Rightarrow> rule_context \<Rightarrow> world \<Rightarrow> string list obj" where
  "getPathMappings opts ctx w =
     (case paths opts of
        Some manualPaths \<Rightarrow> manualPaths
      | None \<Rightarrow>
          (let tsconfigPath = path_join [getCwd ctx, opt_configFile opts];
               ps = (if existsSync w tsconfigPath
                     then resolveProjectReferences ctx w tsconfigPath else [])
           in if length ps > 0 then ps
              else vite_loop w
                     [path_join [getCwd ctx, ''vite.config.js''],
                      path_join [getCwd ctx, ''vite.config.ts''],
                      path_join [getCwd ctx, ''vite.config.mjs''],
                      path_join [getCwd ctx, ''vite.config.mts'']]))"

subsection \<open>Alias patterns\<close>

text \<open>\<open>String.prototype.replace\<close> with a string pattern: the first occurrence only.\<close>

fun replace_first :: "string \<Rightarrow> string \<Rightarrow> string \<Rightarrow> string" where
  "replace_first pat rep [] = (if pat = [] then rep else [])"
| "replace_first pat rep (c # cs) =
     (if startsWith (c # cs) pat then rep @ drop (length pat) (c # cs)
      else c # replace_first pat rep cs)"

text \<open>
  \<open>new RegExp(s)\<close> throws a \<open>SyntaxError\<close> when \<open>s\<close> is not a pattern. A source made of
  plain characters after a leading \<open>^\<close> is always a pattern; for a source with a syntax
  character elsewhere the platform decides.
\<close>

definition is_syntax_character :: "char \<Rightarrow> bool" where
  "is_syntax_character c = (c \<in> set (''^$.*+?()[]{}|'' @ [CHR 0x5C]))"

definition RegExp_throws :: "world \<Rightarrow> string \<Rightarrow> bool" where
  "RegExp_throws w s =
     (list_ex is_syntax_character
        (case s of [] \<Rightarrow> [] | c # cs \<Rightarrow> if c = CHR ''^'' then cs else s)
      \<and> regexpRejects w s)"

text \<open>
  A pattern keeps the alias and the resolved target. Its third field, \<open>aliasRegex\<close>, is
  never read; only the exception that its construction can throw is kept, which leaves
  \<open>create\<close> at the first alias that is not a pattern.
\<close>

record alias_pattern =
  p_alias :: string
  targetPath :: string

definition first_target :: "string list \<Rightarrow> string" where
  "first_target targets = (case targets of [] \<Rightarrow> [] | t # ts \<Rightarrow> replace_first ''/*'' [] t)"

fun createAliasPatterns ::
  "rule_context \<Rightarrow> world \<Rightarrow> string \<Rightarrow> string list obj \<Rightarrow> js_error + alias_pattern list" where
  "createAliasPatterns ctx w finalBaseUrl [] = Inr []"
| "createAliasPatterns ctx w finalBaseUrl ((al, targets) # rest) =
     (let aliasPattern = replace_first ''/*'' [] al
      in if RegExp_throws w (''^'' @ replace_first ''*'' ''.*'' aliasPattern) then Inl SyntaxError
         else case createAliasPatterns ctx w finalBaseUrl rest of
                Inl err \<Rightarrow> Inl err
              | Inr patterns \<Rightarrow>
                  Inr (\<lparr> p_alias = aliasPattern,
                         targetPath = path_resolve (process_cwd ctx)
                                        [getCwd ctx, finalBaseUrl, first_target targets] \<rparr>
                       # patterns))"

subsection \<open>What \<open>create\<close> returns\<close>

record alias_env =
  e_ctx :: rule_context
  e_mode :: string
  e_finalBaseUrl :: string
  e_excludeFolders :: "string list"
  e_aliasPatterns :: "alias_pattern list"

datatype alias_visitor = NoVisitors | Visitors alias_env

definition isDeclarationFile :: "string \<Rightarrow> bool" where
  "isDeclarationFile name = endsWith name ''.d.ts''"

definition alias_create ::
  "alias_options \<Rightarrow> rule_context \<Rightarrow> world \<Rightarrow> js_error + alias_visitor" where
  "alias_create opts ctx w =
     (if isDeclarationFile (getFilename ctx) \<and> \<not> opt_includeDeclarationFiles opts
      then Inr NoVisitors
      else case find (\<lambda>ext. endsWith (getFilename ctx) ext) (opt_supportedExtensions opts) of
        None \<Rightarrow> Inr NoVisitors
      | Some fileExtension \<Rightarrow>
          if fileExtension = [] then Inr NoVisitors
          else (let finalBaseUrl = detectBaseUrl opts ctx w
                in case createAliasPatterns ctx w finalBaseUrl (getPathMappings opts ctx w) of
                     Inl err \<Rightarrow> Inl err
                   | Inr aliasPatterns \<Rightarrow>
                       Inr (Visitors
                         \<lparr> e_ctx = ctx, e_mode = opt_mode opts, e_finalBaseUrl = finalBaseUrl,
                           e_excludeFolders = opt_excludeFolders opts,
                           e_aliasPatterns = aliasPatterns \<rparr>)))"

subsection \<open>The check of one import path\<close>

definition resolvedImportPath :: "alias_env \<Rightarrow> string \<Rightarrow> string" where
  "resolvedImportPath env importPath =
     path_resolve (process_cwd (e_ctx env)) [path_dirname (getFilename (e_ctx env)), importPath]"

definition srcPath :: "alias_env \<Rightarrow> string" where
  "srcPath env = path_resolve (process_cwd (e_ctx env)) [getCwd (e_ctx env), e_finalBaseUrl env]"

definition isDirectChildOfSrc :: "alias_env \<Rightarrow> string \<Rightarrow> bool" where
  "isDirectChildOfSrc env filePath =
     (let relativePath = path_relative (process_cwd (e_ctx env)) (srcPath env) filePath;
          pathParts = js_split CHR ''/'' relativePath
      in length pathParts = 2 \<and> \<not> startsWith relativePath ''..'')"

definition shouldUseAlias :: "alias_env \<Rightarrow> string \<Rightarrow> bool" where
  "shouldUseAlias env importPath =
     (if \<not> startsWith importPath ''../'' \<and> \<not> startsWith importPath ''./'' then False
      else if list_ex (\<lambda>excludeFolder.
                  startsWith (path_relative (process_cwd (e_ctx env)) (getCwd (e_ctx env))
                                (resolvedImportPath env importPath)) excludeFolder)
                (e_excludeFolders env) then False
      else if e_mode env = ''direct-children''
        then isDirectChildOfSrc env (resolvedImportPath env importPath)
      else startsWith (resolvedImportPath env importPath) (srcPath env))"

text \<open>The replacement \<open>/\\/g\<close> by a slash.\<close>

definition slashes :: "string \<Rightarrow> string" where
  "slashes s = map (\<lambda>c. if c = CHR 0x5C then CHR ''/'' else c) s"

fun matching_alias :: "string \<Rightarrow> string \<Rightarrow> alias_pattern list \<Rightarrow> string option" where
  "matching_alias pcwd resolved [] = None"
| "matching_alias pcwd resolved (pattern # patterns) =
     (if startsWith resolved (targetPath pattern)
      then Some (slashes (p_alias pattern @ ''/''
                   @ path_relative pcwd (targetPath pattern) resolved))
      else matching_alias pcwd resolved patterns)"

definition findMatchingAlias :: "alias_env \<Rightarrow> string \<Rightarrow> string option" where
  "findMatchingAlias env importPath =
     matching_alias (process_cwd (e_ctx env)) (resolvedImportPath env importPath)
       (e_aliasPatterns env)"

subsection \<open>Visitors and reports\<close>

datatype literal_value = StringValue string | OtherValue

record literal =
  l_range :: range
  l_value :: literal_value
  l_raw :: string

record alias_import =
  source :: literal

datatype call_argument = Literal literal | OtherArgument string

record call_expr =
  callee_name :: "string option"
  arguments :: "call_argument list"

record alias_report =
  a_anchor :: range
  a_message :: string
  a_fix :: fix_op

definition quoted :: "string \<Rightarrow> string" where
  "quoted s = [CHR 0x27] @ s @ [CHR 0x27]"

definition alias_check ::
  "alias_env \<Rightarrow> string \<Rightarrow> literal \<Rightarrow> string \<Rightarrow> alias_report list" where
  "alias_check env kind lit importPath =
     (if shouldUseAlias env importPath
      then (case findMatchingAlias env importPath of
              None \<Rightarrow> []
            | Some suggestedAlias \<Rightarrow>
                if suggestedAlias = [] then []
                else [\<lparr> a_anchor = l_range lit,
                        a_message = ''Use path alias '' @ quoted suggestedAlias
                          @ '' instead of relative '' @ kind @ '' '' @ quoted importPath,
                        a_fix = ReplaceText (l_range lit) (quoted suggestedAlias) \<rparr>])
      else [])"

text \<open>
  The source of an import declaration is a string literal; the argument of a call can be a
  literal that is no string, on which \<open>importPath.startsWith\<close> throws.
\<close>

definition alias_ImportDeclaration :: "alias_env \<Rightarrow> alias_import \<Rightarrow> js_error + alias_report list" where
  "alias_ImportDeclaration env nd =
     (case l_value (source nd) of
        StringValue importPath \<Rightarrow> Inr (alias_check env ''import'' (source nd) importPath)
      | OtherValue \<Rightarrow> Inl TypeError)"

definition alias_CallExpression :: "alias_env \<Rightarrow> call_expr \<Rightarrow> js_error + alias_report list" where
  "alias_CallExpression env nd =
     (case (callee_name nd, arguments nd) of
        (Some name, [Literal lit]) \<Rightarrow>
          if name = ''require''
          then (case l_value lit of
                  StringValue importPath \<Rightarrow> Inr (alias_check env ''require'' lit importPath)
                | OtherValue \<Rightarrow> Inl TypeError)
          else Inr []
      | _ \<Rightarrow> Inr [])"

datatype alias_event = AImport alias_import | ACall call_expr

fun alias_visit :: "alias_visitor \<Rightarrow> alias_event \<Rightarrow> js_error + alias_report list" where
  "alias_visit NoVisitors e = Inr []"
| "alias_visit (Visitors env) (AImport nd) = alias_ImportDeclaration env nd"
| "alias_visit (Visitors env) (ACall nd) = alias_CallExpression env nd"

text \<open>A traversal: the reports of the visits in order, up to the first visit that throws.\<close>

fun alias_run :: "alias_visitor \<Rightarrow> alias_event list \<Rightarrow> js_error + alias_report list" where
  "alias_run v [] = Inr []"
| "alias_run v (e # es) =
     (case alias_visit v e of
        Inl err \<Rightarrow> Inl err
      | Inr rs \<Rightarrow> (case alias_run v es of Inl err \<Rightarrow> Inl err | Inr rs' \<Rightarrow> Inr (rs @ rs')))"

text \<open>The rule on a file: \<open>create\<close>, then the traversal with the visitors it returned.\<close>

definition alias_lint ::
  "alias_options \<Rightarrow> rule_context \<Rightarrow> world \<Rightarrow> alias_event list \<Rightarrow> js_error + alias_report list" where
  "alias_lint opts ctx w evs =
     (case alias_create opts ctx w of Inl err \<Rightarrow> Inl err | Inr v \<Rightarrow> alias_run v evs)"

text \<open>A fix applied to the text of the file.\<close>

fun apply_fix :: "fix_op \<Rightarrow> string \<Rightarrow> string" where
  "apply_fix (ReplaceText (s, e) t) content = take s content @ t @ drop e content"
| "apply_fix (Remove (s, e)) content = take s content @ drop e content"

subsection \<open>Vocabulary for statements about path mappings and fixes\<close>




text \<open>
  The report \<open>r\<close> is the one for the literal \<open>lit\<close> with import path \<open>importPath\<close>: it is
  anchored at the literal, and its fix replaces the literal by the alias of the first
  pattern whose target is a prefix of the resolved path, a slash and the path from that
  target to the resolved path, between single quotes.
\<close>

definition alias_fix_of :: "alias_env \<Rightarrow> literal \<Rightarrow> string \<Rightarrow> alias_report \<Rightarrow> bool" where
  "alias_fix_of env lit importPath r =
     (case find (\<lambda>pattern. startsWith (resolvedImportPath env importPath) (targetPath pattern))
             (e_aliasPatterns env) of
        None \<Rightarrow> False
      | Some pattern \<Rightarrow>
          a_anchor r = l_range lit
          \<and> a_fix r = ReplaceText (l_range lit)
               ([CHR 0x27]
                @ slashes (p_alias pattern @ ''/''
                    @ path_relative (process_cwd (e_ctx env)) (targetPath pattern)
                        (resolvedImportPath env importPath))
                @ [CHR 0x27]))"

subsection \<open>An example project\<close>

text \<open>
  The project \<open>/proj\<close>: its \<open>tsconfig.json\<close> maps \<open>@/*\<close> to \<open>./src/*\<close> and refers to
  \<open>./packages/a\<close>, whose own configuration maps \<open>@/*\<close> to \<open>./lib/*\<close>, and to
  \<open>./packages/broken\<close>, whose configuration does not parse.
\<close>

definition project_world :: world where
  "project_world =
     \<lparr> existsSync = (\<lambda>p. p \<in> set [''/proj/tsconfig.json'', ''/proj/packages/a'',
                                   ''/proj/packages/a/tsconfig.json'', ''/proj/packages/broken'',
                                   ''/proj/packages/broken/tsconfig.json'']),
       isFile = (\<lambda>p. p \<in> set [''/proj/tsconfig.json'', ''/proj/packages/a/tsconfig.json'',
                               ''/proj/packages/broken/tsconfig.json'']),
       isDirectory = (\<lambda>p. p \<in> set [''/proj/packages/a'', ''/proj/packages/broken'']),
       readdirSync = (\<lambda>p. []),
       readJSON = (\<lambda>p.
         if p = ''/proj/tsconfig.json''
         then Some \<lparr> compilerOptions_baseUrl = None,
                     compilerOptions_paths = Some [(''@/*'', [''./src/*''])],
                     references = Some [Some ''./packages/a'', Some ''./packages/broken''] \<rparr>
         else if p = ''/proj/packages/a/tsconfig.json''
         then Some \<lparr> compilerOptions_baseUrl = None,
                     compilerOptions_paths = Some [(''@/*'', [''./lib/*''])],
                     references = None \<rparr>
         else None),
       viteAliases = (\<lambda>p. []),
       regexpRejects = (\<lambda>s. False) \<rparr>"

definition project_context :: rule_context where
  "project_context =
     \<lparr> getFilename = ''/proj/src/components/Button.tsx'', getCwd = ''/proj'',
       process_cwd = ''/proj'' \<rparr>"

text \<open>
  Two configurations of the rule for the project, both with base directory \<open>./src\<close> in
  mode \<open>direct-children\<close>: the mapping of the documentation, \<open>@/*\<close> to \<open>./src/*\<close>,
  and the mapping \<open>@/*\<close> to \<open>./*\<close>.
\<close>

definition documented_options :: alias_options where
  "documented_options =
     \<lparr> mode = Some ''direct-children'', configFile = None,
       paths = Some [(''@/*'', [''./src/*''])], baseUrl = Some ''./src'',
       fallbackBaseUrl = None, exclude = None, supportedExtensions = None,
       includeDeclarationFiles = None \<rparr>"

definition base_relative_options :: alias_options where
  "base_relative_options =
     \<lparr> mode = Some ''direct-children'', configFile = None,
       paths = Some [(''@/*'', [''./*''])], baseUrl = Some ''./src'',
       fallbackBaseUrl = None, exclude = None, supportedExtensions = None,
       includeDeclarationFiles = None \<rparr>"

text \<open>
  The statement \<open>import { h } from <q>path<q>;\<close> with quote character \<open>q\<close>: its text
  and its source literal.
\<close>

definition import_text :: "char \<Rightarrow> string \<Rightarrow> string" where
  "import_text q p = ''import { h } from '' @ [q] @ p @ [q] @ '';''"

definition import_literal :: "char \<Rightarrow> string \<Rightarrow> literal" where
  "import_literal q p =
     \<lparr> l_range = (18, 20 + length p), l_value = StringValue p, l_raw = [q] @ p @ [q] \<rparr>"

section \<open>Properties of no-namespace-import\<close>

subsection \<open>Imports that create no record\<close>

lemma ns_ImportDeclaration_skip:
  "\<not> records_import opts filename nd \<Longrightarrow> ns_ImportDeclaration opts filename nd st = st"
  by (auto simp: records_import_def ns_ImportDeclaration_def split: option.splits)

lemma ns_step_skip:
  "\<not> records_import opts filename nd \<Longrightarrow> ns_step opts filename s (EImport nd) = s"
  by (cases s) (simp add: ns_ImportDeclaration_skip)

subsection \<open>Bindings without a record\<close>

lemma no_record_push:
  "no_record_of l st \<Longrightarrow> localName imp \<noteq> l \<Longrightarrow> no_record_of l (push_import lib imp st)"
  by (induction lib imp st rule: push_import.induct) (auto simp: no_record_of_def)

lemma find_is_default:
  "find is_default ss = Some s \<Longrightarrow> s = ImportDefaultSpecifier (specifier_local s)"
proof (induction ss)
  case Nil
  then show ?case by simp
next
  case (Cons a ss)
  then show ?case by (cases a) (auto split: if_splits)
qed

text \<open>What the import visitor does to the state: nothing, or one new unmarked record.\<close>

lemma ImportDeclaration_localName:
  assumes "\<not> records_default opts filename l (EImport nd)"
  shows "ns_ImportDeclaration opts filename nd st = st
   \<or> (\<exists>imp. ns_ImportDeclaration opts filename nd st = push_import (source_value nd) imp st
          \<and> localName imp \<noteq> l \<and> \<not> isUsedAsNamespace imp)"
proof (cases "records_import opts filename nd")
  case False
  then show ?thesis
    by (simp add: ns_ImportDeclaration_skip)
next
  case True
  then obtain s where s: "find is_default (specifiers nd) = Some s"
    by (auto simp: records_import_def)
  let ?imp = "\<lparr> node = nd, localName = specifier_local s,
                   libraryName = source_value nd, isUsedAsNamespace = False,
                   namespacedProperties = [], isTypeImport = isTypeOnlyImport opts filename nd \<rparr>"
  from True s have "ns_ImportDeclaration opts filename nd st = push_import (source_value nd) ?imp st"
    by (auto simp: records_import_def ns_ImportDeclaration_def)
  moreover from find_is_default [OF s] s True assms have "localName ?imp \<noteq> l"
    by auto
  moreover have "\<not> isUsedAsNamespace ?imp"
    by simp
  ultimately show ?thesis
    by blast
qed

lemma no_record_ImportDeclaration:
  assumes "no_record_of l st" and "\<not> records_default opts filename l (EImport nd)"
  shows "no_record_of l (ns_ImportDeclaration opts filename nd st)"
  using ImportDeclaration_localName [OF assms(2), of st] assms(1)
  by (auto simp: no_record_push)

lemma no_record_mark_import:
  "list_all (\<lambda>imp. localName imp \<noteq> l) imps \<Longrightarrow>
   list_all (\<lambda>imp. localName imp \<noteq> l) (mark_import objectName propertyName imps)"
  by (induction imps) auto

lemma no_record_member_loop:
  "no_record_of l st \<Longrightarrow> member_loop nd objectName propertyName st = (st', ds) \<Longrightarrow>
   no_record_of l st'"
proof (induction st arbitrary: st' ds)
  case Nil
  then show ?case by simp
next
  case (Cons a st)
  obtain lib imps where a: "a = (lib, imps)" by (cases a)
  show ?case
  proof (cases "find (\<lambda>imp. localName imp = objectName) imps")
    case None
    obtain r ds0 where r: "member_loop nd objectName propertyName st = (r, ds0)"
      by (cases "member_loop nd objectName propertyName st")
    from Cons.prems have "no_record_of l st" by (simp add: no_record_of_def)
    from Cons.IH [OF this r] Cons.prems show ?thesis
      by (auto simp: a None r no_record_of_def)
  next
    case (Some imp)
    with Cons.prems show ?thesis
      by (auto simp: a no_record_of_def no_record_mark_import)
  qed
qed

lemma no_record_MemberExpression:
  "no_record_of l st \<Longrightarrow> ns_MemberExpression nd st = (st', ds) \<Longrightarrow> no_record_of l st'"
  by (auto simp: ns_MemberExpression_def split: expr.splits dest: no_record_member_loop)

subsection \<open>One recorded import and its accesses\<close>

lemma ns_MemberExpression_single:
  "ns_MemberExpression m
      [(M, [\<lparr> node = d, localName = L, libraryName = M, isUsedAsNamespace = u,
              namespacedProperties = ps, isTypeImport = t \<rparr>])]
   = (if is_access L m
      then ([(M, [\<lparr> node = d, localName = L, libraryName = M, isUsedAsNamespace = True,
              namespacedProperties = set_add (accessed_name m) ps, isTypeImport = t \<rparr>])],
            [inline_diagnostic m L (accessed_name m) M t])
      else ([(M, [\<lparr> node = d, localName = L, libraryName = M, isUsedAsNamespace = u,
              namespacedProperties = ps, isTypeImport = t \<rparr>])], []))"
  by (auto simp: ns_MemberExpression_def is_access_def accessed_name_def split: expr.splits)

lemma member_fold_single:
  "foldl (ns_step opts filename)
      ([(M, [\<lparr> node = d, localName = L, libraryName = M, isUsedAsNamespace = u,
              namespacedProperties = ps, isTypeImport = t \<rparr>])], out) (map EMember ms)
   = ([(M, [\<lparr> node = d, localName = L, libraryName = M,
              isUsedAsNamespace = (u \<or> filter (is_access L) ms \<noteq> []),
              namespacedProperties = fold set_add (map accessed_name (filter (is_access L) ms)) ps,
              isTypeImport = t \<rparr>])],
      out @ map (\<lambda>m. inline_diagnostic m L (accessed_name m) M t) (filter (is_access L) ms))"
proof (induction ms arbitrary: u ps out)
  case Nil
  show ?case by simp
next
  case (Cons m ms)
  show ?case
    by (cases "is_access L m") (simp_all add: ns_MemberExpression_single Cons.IH)
qed

lemma new_Set_nonempty: "new_Set xs = y # ys \<Longrightarrow> xs \<noteq> []"
  by (auto simp: new_Set_def)

subsection \<open>The records of one binding\<close>

lemma records_of_push_other:
  "localName imp \<noteq> l \<Longrightarrow> records_of l (push_import lib imp st) = records_of l st"
  by (induction lib imp st rule: push_import.induct) (auto simp: records_of_def)

lemma records_of_push_first:
  "records_of l st = [] \<Longrightarrow> localName imp = l \<Longrightarrow>
   records_of l (push_import lib imp st) = [(lib, [imp])]"
proof (induction lib imp st rule: push_import.induct)
  case (1 lib imp)
  then show ?case by (simp add: records_of_def)
next
  case (2 lib imp k imps rest)
  from "2.prems"(1) have e: "filter (\<lambda>i. localName i = l) imps = []"
    and r: "records_of l rest = []"
    by (auto simp: records_of_def split: if_splits)
  show ?case
  proof (cases "k = lib")
    case True
    with e r "2.prems"(2) show ?thesis
      by (simp add: records_of_def)
  next
    case False
    with e "2.IH" [OF False r "2.prems"(2)] show ?thesis
      by (simp add: records_of_def)
  qed
qed

lemma others_unused_push:
  "others_unused l st \<Longrightarrow> \<not> isUsedAsNamespace imp \<Longrightarrow> others_unused l (push_import lib imp st)"
  by (induction lib imp st rule: push_import.induct) (auto simp: others_unused_def)

lemma filter_mark_import:
  "filter (\<lambda>i. localName i = l) (mark_import l p imps)
     = mark_import l p (filter (\<lambda>i. localName i = l) imps)"
  by (induction imps) auto

lemma find_filter_localName:
  "find (\<lambda>i. localName i = l) (filter (\<lambda>i. localName i = l) imps)
     = find (\<lambda>i. localName i = l) imps"
  by (induction imps) auto

lemma find_None_filter:
  "find (\<lambda>i. localName i = l) imps = None \<Longrightarrow> filter (\<lambda>i. localName i = l) imps = []"
  by (induction imps) (auto split: if_splits)

lemma find_Some_filter:
  "find (\<lambda>i. localName i = l) imps = Some r \<Longrightarrow> filter (\<lambda>i. localName i = l) imps \<noteq> []"
  by (induction imps) (auto split: if_splits)

lemma mark_import_nonempty: "imps \<noteq> [] \<Longrightarrow> mark_import l p imps \<noteq> []"
  by (cases imps) auto

lemma member_loop_records_of:
  "member_loop nd l p st = (st', ds) \<Longrightarrow>
   member_loop nd l p (records_of l st) = (records_of l st', ds)"
proof (induction st arbitrary: st' ds)
  case Nil
  then show ?case by (simp add: records_of_def)
next
  case (Cons a st)
  obtain lib imps where a: "a = (lib, imps)" by (cases a)
  show ?case
  proof (cases "find (\<lambda>i. localName i = l) imps")
    case None
    obtain r ds0 where r: "member_loop nd l p st = (r, ds0)"
      by (cases "member_loop nd l p st")
    from Cons.prems have st': "st' = (lib, imps) # r" and ds: "ds = ds0"
      by (simp_all add: a None r)
    from Cons.IH [OF r] find_None_filter [OF None] show ?thesis
      by (simp add: a st' ds records_of_def)
  next
    case (Some r)
    from Cons.prems have st': "st' = (lib, mark_import l p imps) # st"
      and ds: "ds = [inline_diagnostic nd l p lib (isTypeImport r)]"
      by (simp_all add: a Some)
    from find_Some_filter [OF Some]
    have ne: "filter (\<lambda>i. localName i = l) imps \<noteq> []" .
    then have ne': "mark_import l p (filter (\<lambda>i. localName i = l) imps) \<noteq> []"
      by (rule mark_import_nonempty)
    have f: "find (\<lambda>i. localName i = l) (filter (\<lambda>i. localName i = l) imps) = Some r"
      by (simp add: find_filter_localName Some)
    show ?thesis
      using ne ne' f by (simp add: a st' ds records_of_def filter_mark_import)
  qed
qed

lemma others_unused_mark_import:
  "list_all (\<lambda>imp. localName imp \<noteq> l \<longrightarrow> \<not> isUsedAsNamespace imp) imps \<Longrightarrow>
   list_all (\<lambda>imp. localName imp \<noteq> l \<longrightarrow> \<not> isUsedAsNamespace imp) (mark_import l p imps)"
  by (induction imps) auto

lemma others_unused_member_loop:
  "others_unused l st \<Longrightarrow> member_loop nd l p st = (st', ds) \<Longrightarrow> others_unused l st'"
proof (induction st arbitrary: st' ds)
  case Nil
  then show ?case by simp
next
  case (Cons a st)
  obtain lib imps where a: "a = (lib, imps)" by (cases a)
  show ?case
  proof (cases "find (\<lambda>i. localName i = l) imps")
    case None
    obtain r ds0 where r: "member_loop nd l p st = (r, ds0)"
      by (cases "member_loop nd l p st")
    from Cons.prems have "others_unused l st" by (simp add: others_unused_def)
    from Cons.IH [OF this r] Cons.prems show ?thesis
      by (auto simp: a None r others_unused_def)
  next
    case (Some r)
    with Cons.prems show ?thesis
      by (auto simp: a others_unused_def others_unused_mark_import)
  qed
qed

lemma member_loop_no_record:
  "no_record_of x st \<Longrightarrow> member_loop nd x p st = (st, [])"
proof (induction st)
  case Nil
  show ?case by simp
next
  case (Cons a st)
  obtain lib imps where a: "a = (lib, imps)" by (cases a)
  from Cons.prems have n: "find (\<lambda>i. localName i = x) imps = None"
    by (auto simp: a no_record_of_def find_None_iff list_all_iff)
  from Cons.prems have "no_record_of x st" by (simp add: no_record_of_def)
  from Cons.IH [OF this] show ?case
    by (simp add: a n)
qed

lemma exit_records_of:
  "others_unused l st \<Longrightarrow> ns_Program_exit st = ns_Program_exit (records_of l st)"
proof (induction st)
  case Nil
  show ?case by (simp add: records_of_def)
next
  case (Cons a st)
  obtain lib imps where a: "a = (lib, imps)" by (cases a)
  from Cons.prems have o: "others_unused l st"
    and u: "list_all (\<lambda>imp. localName imp \<noteq> l \<longrightarrow> \<not> isUsedAsNamespace imp) imps"
    by (simp_all add: a others_unused_def)
  from u have f: "filter isUsedAsNamespace imps
      = filter isUsedAsNamespace (filter (\<lambda>i. localName i = l) imps)"
    by (induction imps) auto
  from Cons.IH [OF o] have r: "ns_Program_exit st = ns_Program_exit (records_of l st)" .
  show ?case
  proof (cases "filter (\<lambda>i. localName i = l) imps = []")
    case True
    with f have "filter isUsedAsNamespace imps = []" by simp
    with True r show ?thesis
      by (simp add: a records_of_def ns_Program_exit_def)
  next
    case False
    with f r show ?thesis
      by (simp add: a records_of_def ns_Program_exit_def)
  qed
qed

subsection \<open>A file seen from one binding\<close>

lemma unbound_unrecorded_step:
  assumes "unbound_unrecorded opts filename evs st" and "e \<in> set evs"
    and "ns_step opts filename (st, out) e = (st', out')"
  shows "unbound_unrecorded opts filename evs st'"
proof (cases e)
  case (EImport nd)
  with assms(3) have st': "st' = ns_ImportDeclaration opts filename nd st" by simp
  show ?thesis
    unfolding unbound_unrecorded_def
  proof (intro allI impI)
    fix x assume x: "\<not> list_ex (records_default opts filename x) evs"
    with assms(2) EImport have "\<not> records_default opts filename x (EImport nd)"
      by (auto simp: list_ex_iff)
    moreover from x assms(1) have "no_record_of x st"
      by (simp add: unbound_unrecorded_def)
    ultimately show "no_record_of x st'"
      unfolding st' by (intro no_record_ImportDeclaration)
  qed
next
  case (EMember nd)
  obtain s ds where m: "ns_MemberExpression nd st = (s, ds)"
    by (cases "ns_MemberExpression nd st")
  with assms(3) EMember have st': "st' = s" by simp
  show ?thesis
    unfolding unbound_unrecorded_def
  proof (intro allI impI)
    fix x assume x: "\<not> list_ex (records_default opts filename x) evs"
    with assms(1) have "no_record_of x st"
      by (simp add: unbound_unrecorded_def)
    from no_record_MemberExpression [OF this m] show "no_record_of x st'"
      by (simp add: st')
  qed
qed

lemma ns_MemberExpression_access:
  "is_access l nd \<Longrightarrow> ns_MemberExpression nd st = member_loop nd l (accessed_name nd) st"
  by (auto simp: is_access_def accessed_name_def ns_MemberExpression_def split: expr.splits)

lemma ns_MemberExpression_other:
  assumes "\<not> is_access l nd" and "accesses_only opts filename l evs (EMember nd)"
    and "unbound_unrecorded opts filename evs st"
  shows "ns_MemberExpression nd st = (st, [])"
proof (cases "object nd")
  case (Identifier x)
  show ?thesis
  proof (cases "property nd")
    case (Identifier p)
    from assms(1) \<open>object nd = Identifier x\<close> Identifier have "x \<noteq> l"
      by (simp add: is_access_def)
    with assms(2) \<open>object nd = Identifier x\<close> Identifier
    have "\<not> list_ex (records_default opts filename x) evs" by simp
    with assms(3) have "no_record_of x st"
      by (simp add: unbound_unrecorded_def)
    from member_loop_no_record [OF this] \<open>object nd = Identifier x\<close> Identifier
    show ?thesis
      by (simp add: ns_MemberExpression_def)
  next
    case (OtherExpr t)
    with \<open>object nd = Identifier x\<close> show ?thesis
      by (simp add: ns_MemberExpression_def)
  qed
next
  case (OtherExpr t)
  then show ?thesis
    by (simp add: ns_MemberExpression_def)
qed

lemma binding_step:
  assumes e: "e \<in> set evs" and nb: "\<not> records_default opts filename l e"
    and ao: "accesses_only opts filename l evs e"
    and inv: "unbound_unrecorded opts filename evs st" "others_unused l st"
    and step: "ns_step opts filename (st, out) e = (st', out')"
  shows "foldl (ns_step opts filename) (records_of l st, out)
           (map EMember (filter (is_access l) (members [e]))) = (records_of l st', out')
         \<and> others_unused l st'"
proof (cases e)
  case (EImport nd)
  with step have st': "st' = ns_ImportDeclaration opts filename nd st" and out: "out' = out"
    by simp_all
  from nb EImport ImportDeclaration_localName [of opts filename l nd st]
  have "records_of l st' = records_of l st \<and> others_unused l st'"
    using inv(2) by (auto simp: st' records_of_push_other others_unused_push)
  with EImport out show ?thesis by simp
next
  case (EMember nd)
  show ?thesis
  proof (cases "is_access l nd")
    case True
    obtain s ds where m: "member_loop nd l (accessed_name nd) st = (s, ds)"
      by (cases "member_loop nd l (accessed_name nd) st")
    with step EMember True have st': "st' = s" and out: "out' = out @ ds"
      by (simp_all add: ns_MemberExpression_access)
    from member_loop_records_of [OF m] others_unused_member_loop [OF inv(2) m]
    show ?thesis
      using EMember True by (simp add: ns_MemberExpression_access st' out)
  next
    case False
    from ns_MemberExpression_other [OF False _ inv(1)] ao EMember
    have "ns_MemberExpression nd st = (st, [])" by simp
    with step EMember False inv(2) show ?thesis by simp
  qed
qed

lemma members_append: "members (xs @ ys) = members xs @ members ys"
  by (induction xs rule: members.induct) simp_all

lemma binding_foldl:
  assumes "set es \<subseteq> set evs" and "list_all (\<lambda>e. \<not> records_default opts filename l e) es"
    and "list_all (accesses_only opts filename l evs) es"
    and "unbound_unrecorded opts filename evs (fst s)" and "others_unused l (fst s)"
  shows "foldl (ns_step opts filename) (records_of l (fst s), snd s)
           (map EMember (filter (is_access l) (members es)))
         = (records_of l (fst (foldl (ns_step opts filename) s es)),
            snd (foldl (ns_step opts filename) s es))
         \<and> unbound_unrecorded opts filename evs (fst (foldl (ns_step opts filename) s es))
         \<and> others_unused l (fst (foldl (ns_step opts filename) s es))"
  using assms
proof (induction es arbitrary: s)
  case Nil
  then show ?case by simp
next
  case (Cons e es)
  obtain st out where s: "s = (st, out)" by (cases s)
  obtain st' out' where n: "ns_step opts filename (st, out) e = (st', out')"
    by (cases "ns_step opts filename (st, out) e")
  from Cons.prems have e: "e \<in> set evs" and nb: "\<not> records_default opts filename l e"
    and ao: "accesses_only opts filename l evs e" and i1: "unbound_unrecorded opts filename evs st"
    and i2: "others_unused l st"
    by (simp_all add: s)
  from binding_step [OF e nb ao i1 i2 n]
  have b: "foldl (ns_step opts filename) (records_of l st, out)
           (map EMember (filter (is_access l) (members [e]))) = (records_of l st', out')"
    and o: "others_unused l st'"
    by simp_all
  from unbound_unrecorded_step [OF i1 e n] have u: "unbound_unrecorded opts filename evs st'" .
  from Cons.prems have "set es \<subseteq> set evs" "list_all (\<lambda>e. \<not> records_default opts filename l e) es"
    "list_all (accesses_only opts filename l evs) es"
    by simp_all
  from Cons.IH [OF this, of "(st', out')"] u o
  have ih: "foldl (ns_step opts filename) (records_of l st', out')
           (map EMember (filter (is_access l) (members es)))
         = (records_of l (fst (foldl (ns_step opts filename) (st', out') es)),
            snd (foldl (ns_step opts filename) (st', out') es))
         \<and> unbound_unrecorded opts filename evs (fst (foldl (ns_step opts filename) (st', out') es))
         \<and> others_unused l (fst (foldl (ns_step opts filename) (st', out') es))"
    by simp
  have "members (e # es) = members [e] @ members es"
    using members_append [of "[e]" es] by simp
  with b ih show ?case
    by (simp add: s n)
qed

lemma no_access_members:
  "list_all (no_access_of l) es \<Longrightarrow> filter (is_access l) (members es) = []"
  by (induction es rule: members.induct) simp_all

text \<open>
  Claim C1, as the code has it. Take a file in which the import declaration \<open>d\<close> creates
  a record for library \<open>M\<close> under the local name \<open>L\<close>, no other declaration creates a
  record under that name, every member expression of two identifiers has as its object
  \<open>L\<close> or a name without a record, and the accesses \<open>L.p\<close> come after \<open>d\<close> in traversal
  order. Let \<open>sites\<close> be these accesses, and let the distinct property names, in the order
  met, be \<open>p1, p2, p3, p4\<close>. Then the rule reports one inline diagnostic for every access
  site, in order and anchored there (a repeated property name is reported again at each of
  its sites), followed by exactly one summary diagnostic, anchored at the import
  declaration, whose \<open>properties\<close> string is \<open>p1, p2, p3, ...\<close>. With one site per name
  these are four inline diagnostics.
\<close>

theorem ns_four_properties:
  assumes rec: "records_import opts filename d"
    and loc: "find is_default (specifiers d) = Some (ImportDefaultSpecifier L)"
    and evs: "evs = pre @ EImport d # post"
    and uniq: "list_all (\<lambda>e. \<not> records_default opts filename L e) (pre @ post)"
    and only: "list_all (accesses_only opts filename L evs) evs"
    and before: "list_all (no_access_of L) pre"
    and sites: "sites = filter (is_access L) (members post)"
    and props: "new_Set (map accessed_name sites) = [p1, p2, p3, p4]"
  shows "ns_run opts filename evs =
           map (\<lambda>m. inline_diagnostic m L (accessed_name m) (source_value d)
                       (isTypeOnlyImport opts filename d)) sites
           @ [summary_diagnostic (source_value d)
                \<lparr> node = d, localName = L, libraryName = source_value d,
                  isUsedAsNamespace = True, namespacedProperties = [p1, p2, p3, p4],
                  isTypeImport = isTypeOnlyImport opts filename d \<rparr>]
         \<and> anchor (last (ns_run opts filename evs)) = i_range d
         \<and> map_of (data (last (ns_run opts filename evs))) ''properties''
             = Some (p1 @ '', '' @ p2 @ '', '' @ p3 @ '', ...'')
         \<and> map anchor (butlast (ns_run opts filename evs)) = map m_range sites
         \<and> (length sites = 4 \<longrightarrow> length (ns_run opts filename evs) = 5)"
proof -
  let ?M = "source_value d" and ?t = "isTypeOnlyImport opts filename d"
  let ?step = "ns_step opts filename"
  let ?imp0 = "\<lparr> node = d, localName = L, libraryName = ?M, isUsedAsNamespace = False,
               namespacedProperties = [], isTypeImport = ?t \<rparr>"
  let ?s = "summary_diagnostic ?M
      \<lparr> node = d, localName = L, libraryName = ?M, isUsedAsNamespace = True,
        namespacedProperties = [p1, p2, p3, p4], isTypeImport = ?t \<rparr>"
  let ?s1 = "foldl ?step ([], []) pre"
  let ?s2 = "?step ?s1 (EImport d)"
  let ?s3 = "foldl ?step ?s2 post"
  have init: "unbound_unrecorded opts filename evs (fst ([], []))" "others_unused L (fst ([], []))"
    by (simp_all add: unbound_unrecorded_def no_record_of_def others_unused_def)
  \<comment> \<open>before the import\<close>
  from uniq only have pre_ok: "set pre \<subseteq> set evs" "list_all (\<lambda>e. \<not> records_default opts filename L e) pre"
    "list_all (accesses_only opts filename L evs) pre"
    by (auto simp: evs)
  from binding_foldl [OF pre_ok init] no_access_members [OF before]
  have s1: "records_of L (fst ?s1) = []" "snd ?s1 = []"
    "unbound_unrecorded opts filename evs (fst ?s1)" "others_unused L (fst ?s1)"
    by (simp_all add: records_of_def)
  \<comment> \<open>the import\<close>
  have imp: "ns_ImportDeclaration opts filename d (fst ?s1) = push_import ?M ?imp0 (fst ?s1)"
    using rec loc by (auto simp: records_import_def ns_ImportDeclaration_def)
  have s2_eq: "?s2 = (push_import ?M ?imp0 (fst ?s1), [])"
    using s1(2) imp by (cases ?s1) simp
  have s2: "records_of L (fst ?s2) = [(?M, [?imp0])]" "snd ?s2 = []"
    "unbound_unrecorded opts filename evs (fst ?s2)" "others_unused L (fst ?s2)"
  proof -
    show "records_of L (fst ?s2) = [(?M, [?imp0])]"
      unfolding s2_eq using records_of_push_first [OF s1(1), of ?imp0 ?M] by simp
    show "snd ?s2 = []" unfolding s2_eq by simp
    have "EImport d \<in> set evs" by (simp add: evs)
    from unbound_unrecorded_step [OF s1(3) this, where out = "snd ?s1"]
    show "unbound_unrecorded opts filename evs (fst ?s2)"
      by (cases ?s2) simp
    show "others_unused L (fst ?s2)"
      unfolding s2_eq using others_unused_push [OF s1(4), of ?imp0 ?M] by simp
  qed
  \<comment> \<open>after the import\<close>
  from uniq only have post_ok: "set post \<subseteq> set evs"
    "list_all (\<lambda>e. \<not> records_default opts filename L e) post" "list_all (accesses_only opts filename L evs) post"
    by (auto simp: evs)
  from binding_foldl [OF post_ok s2(3) s2(4)]
  have s3: "foldl ?step ([(?M, [?imp0])], []) (map EMember sites)
              = (records_of L (fst ?s3), snd ?s3)"
    and o3: "others_unused L (fst ?s3)"
    by (simp_all add: s2(1) s2(2) sites)
  have ne: "sites \<noteq> []"
    using new_Set_nonempty [OF props] by simp
  have single: "foldl ?step ([(?M, [?imp0])], []) (map EMember sites) =
      ([(?M, [\<lparr> node = d, localName = L, libraryName = ?M, isUsedAsNamespace = True,
               namespacedProperties = [p1, p2, p3, p4], isTypeImport = ?t \<rparr>])],
       map (\<lambda>m. inline_diagnostic m L (accessed_name m) ?M ?t) (filter (is_access L) sites))"
    using ne props member_fold_single [of opts filename ?M d L False "[]" ?t "[]" sites]
    by (simp add: sites new_Set_def)
  have fs: "filter (is_access L) sites = sites"
    by (simp add: sites)
  have trav: "ns_traverse opts filename evs = ?s3"
    by (simp add: ns_traverse_def evs)
  from s3 single fs have r3: "records_of L (fst ?s3) =
      [(?M, [\<lparr> node = d, localName = L, libraryName = ?M, isUsedAsNamespace = True,
               namespacedProperties = [p1, p2, p3, p4], isTypeImport = ?t \<rparr>])]"
    and out3: "snd ?s3 = map (\<lambda>m. inline_diagnostic m L (accessed_name m) ?M ?t) sites"
    by simp_all
  have "ns_Program_exit (fst ?s3) = ns_Program_exit (records_of L (fst ?s3))"
    by (rule exit_records_of [OF o3])
  also have "\<dots> = [?s]"
    by (simp add: r3 ns_Program_exit_def)
  finally have ex: "ns_Program_exit (fst ?s3) = [?s]" .
  have run: "ns_run opts filename evs =
      map (\<lambda>m. inline_diagnostic m L (accessed_name m) ?M ?t) sites @ [?s]"
    using ex out3 by (simp add: ns_run_def trav case_prod_beta)
  have a: "anchor ?s = i_range d"
    by (simp add: summary_diagnostic_def)
  have p: "map_of (data ?s) ''properties'' = Some (p1 @ '', '' @ p2 @ '', '' @ p3 @ '', ...'')"
    by (simp add: summary_diagnostic_def propertiesString_def)
  have i: "map anchor (butlast (ns_run opts filename evs)) = map m_range sites"
    by (simp add: run inline_diagnostic_def comp_def)
  from run a p i show ?thesis by simp
qed

theorem ns_four_properties_witness:
  "ns_run \<lparr> allowedLibraries = None, targetLibraries = None, checkTypeScriptTypes = None,
             allowTypeNamespaces = None \<rparr> ''a.js''
     [EImport \<lparr> i_range = (0, 26), source_value = ''react'',
                specifiers = [ImportDefaultSpecifier ''React''], importKind = None \<rparr>,
      EImport \<lparr> i_range = (27, 51), source_value = ''lodash'',
                specifiers = [ImportDefaultSpecifier ''_''], importKind = None \<rparr>,
      EMember \<lparr> m_range = (60, 65), object = Identifier ''_'', property = Identifier ''map'' \<rparr>,
      EMember \<lparr> m_range = (70, 78), object = Identifier ''_'', property = Identifier ''filter'' \<rparr>,
      EMember \<lparr> m_range = (80, 85), object = Identifier ''_'', property = Identifier ''map'' \<rparr>,
      EMember \<lparr> m_range = (90, 95), object = Identifier ''x'', property = Identifier ''map'' \<rparr>,
      EImport \<lparr> i_range = (96, 120), source_value = ''zod'',
                specifiers = [ImportSpecifier ''z'' ''z''], importKind = None \<rparr>,
      EMember \<lparr> m_range = (130, 135), object = Identifier ''_'', property = Identifier ''zip'' \<rparr>,
      EMember \<lparr> m_range = (140, 146), object = Identifier ''_'', property = Identifier ''uniq'' \<rparr>]
   = [inline_diagnostic \<lparr> m_range = (60, 65), object = Identifier ''_'', property = Identifier ''map'' \<rparr>
        ''_'' ''map'' ''lodash'' False,
      inline_diagnostic \<lparr> m_range = (70, 78), object = Identifier ''_'', property = Identifier ''filter'' \<rparr>
        ''_'' ''filter'' ''lodash'' False,
      inline_diagnostic \<lparr> m_range = (80, 85), object = Identifier ''_'', property = Identifier ''map'' \<rparr>
        ''_'' ''map'' ''lodash'' False,
      inline_diagnostic \<lparr> m_range = (130, 135), object = Identifier ''_'', property = Identifier ''zip'' \<rparr>
        ''_'' ''zip'' ''lodash'' False,
      inline_diagnostic \<lparr> m_range = (140, 146), object = Identifier ''_'', property = Identifier ''uniq'' \<rparr>
        ''_'' ''uniq'' ''lodash'' False,
      \<lparr> anchor = (27, 51), messageId = ''noDefaultImportForNamespace'',
        data = [(''importName'', ''_''), (''libraryName'', ''lodash''),
                (''properties'', ''map, filter, zip, ...'')],
        d_fix = Some (ReplaceText (27, 51)
                  (''import { filter, map, uniq, zip } from '' @ [CHR 0x27] @ ''lodash''
                     @ [CHR 0x27] @ '';'')) \<rparr>]"
proof -
  let ?opts = "\<lparr> allowedLibraries = None, targetLibraries = None, checkTypeScriptTypes = None,
             allowTypeNamespaces = None \<rparr>"
  let ?d = "\<lparr> i_range = (27, 51), source_value = ''lodash'',
                specifiers = [ImportDefaultSpecifier ''_''], importKind = None \<rparr>"
  let ?pre = "[EImport \<lparr> i_range = (0, 26), source_value = ''react'',
                specifiers = [ImportDefaultSpecifier ''React''], importKind = None \<rparr>]"
  let ?post = "[
      EMember \<lparr> m_range = (60, 65), object = Identifier ''_'', property = Identifier ''map'' \<rparr>,
      EMember \<lparr> m_range = (70, 78), object = Identifier ''_'', property = Identifier ''filter'' \<rparr>,
      EMember \<lparr> m_range = (80, 85), object = Identifier ''_'', property = Identifier ''map'' \<rparr>,
      EMember \<lparr> m_range = (90, 95), object = Identifier ''x'', property = Identifier ''map'' \<rparr>,
      EImport \<lparr> i_range = (96, 120), source_value = ''zod'',
                specifiers = [ImportSpecifier ''z'' ''z''], importKind = None \<rparr>,
      EMember \<lparr> m_range = (130, 135), object = Identifier ''_'', property = Identifier ''zip'' \<rparr>,
      EMember \<lparr> m_range = (140, 146), object = Identifier ''_'', property = Identifier ''uniq'' \<rparr>]"
  have h1: "records_import ?opts ''a.js'' ?d"
    by (simp add: records_import_def shouldCheckLibrary_def opt_allowedLibraries_def
        shouldCheckAllLibraries_def opt_targetLibraries_def isTypeOnlyImport_def)
  have h2: "find is_default (specifiers ?d) = Some (ImportDefaultSpecifier ''_'')"
    by simp
  have h3: "list_all (\<lambda>e. \<not> records_default ?opts ''a.js'' ''_'' e) (?pre @ ?post)"
    by simp
  have h4: "list_all (accesses_only ?opts ''a.js'' ''_'' (?pre @ EImport ?d # ?post))
              (?pre @ EImport ?d # ?post)"
    by simp
  have h5: "list_all (no_access_of ''_'') ?pre"
    by simp
  have h6: "new_Set (map accessed_name (filter (is_access ''_'') (members ?post)))
              = [''map'', ''filter'', ''zip'', ''uniq'']"
    by (simp add: new_Set_def set_add_def is_access_def accessed_name_def)
  have srt: "sort [''map'', ''filter'', ''zip'', ''uniq''] = [''filter'', ''map'', ''uniq'', ''zip'']"
    by code_simp
  show ?thesis
    using ns_four_properties [OF h1 h2 refl h3 h4 h5 refl h6]
    by (simp add: is_access_def accessed_name_def isTypeOnlyImport_def isTypeScript_def
        endsWith_def summary_diagnostic_def propertiesString_def summary_fix_def
        allNeededNamedImports_def newImportStatement_def new_Set_def set_add_def srt)
qed

text \<open>
  The claim as stated fails on \<open>_.map; import _ from 'lodash'; _.filter; _.zip; _.uniq;\<close>,
  a module in which the first access stands before the import declaration. When that
  access is visited there is no record yet: it is not reported and leaves no evidence. The
  rule reports three inline diagnostics, and the summary lists \<open>filter, zip, uniq\<close> with
  no ellipsis.
\<close>

theorem ns_access_before_import_counterexample:
  "ns_run \<lparr> allowedLibraries = None, targetLibraries = None, checkTypeScriptTypes = None,
             allowTypeNamespaces = None \<rparr> ''a.js''
     [EMember \<lparr> m_range = (0, 5), object = Identifier ''_'', property = Identifier ''map'' \<rparr>,
      EImport \<lparr> i_range = (7, 31), source_value = ''lodash'',
                specifiers = [ImportDefaultSpecifier ''_''], importKind = None \<rparr>,
      EMember \<lparr> m_range = (32, 40), object = Identifier ''_'', property = Identifier ''filter'' \<rparr>,
      EMember \<lparr> m_range = (42, 47), object = Identifier ''_'', property = Identifier ''zip'' \<rparr>,
      EMember \<lparr> m_range = (49, 55), object = Identifier ''_'', property = Identifier ''uniq'' \<rparr>]
   = [\<lparr> anchor = (32, 40), messageId = ''noNamespaceUsage'',
        data = [(''objectName'', ''_''), (''propertyName'', ''filter''),
                (''libraryName'', ''lodash'')],
        d_fix = Some (ReplaceText (32, 40) ''filter'') \<rparr>,
      \<lparr> anchor = (42, 47), messageId = ''noNamespaceUsage'',
        data = [(''objectName'', ''_''), (''propertyName'', ''zip''),
                (''libraryName'', ''lodash'')],
        d_fix = Some (ReplaceText (42, 47) ''zip'') \<rparr>,
      \<lparr> anchor = (49, 55), messageId = ''noNamespaceUsage'',
        data = [(''objectName'', ''_''), (''propertyName'', ''uniq''),
                (''libraryName'', ''lodash'')],
        d_fix = Some (ReplaceText (49, 55) ''uniq'') \<rparr>,
      \<lparr> anchor = (7, 31), messageId = ''noDefaultImportForNamespace'',
        data = [(''importName'', ''_''), (''libraryName'', ''lodash''),
                (''properties'', ''filter, zip, uniq'')],
        d_fix = Some (ReplaceText (7, 31)
                  (''import { filter, uniq, zip } from '' @ [CHR 0x27] @ ''lodash''
                     @ [CHR 0x27] @ '';'')) \<rparr>]"
proof -
  have srt: "sort [''filter'', ''zip'', ''uniq''] = [''filter'', ''uniq'', ''zip'']"
    by code_simp
  show ?thesis
    by (simp add: ns_run_def ns_traverse_def ns_ImportDeclaration_def shouldCheckLibrary_def
        opt_allowedLibraries_def shouldCheckAllLibraries_def opt_targetLibraries_def
        isTypeOnlyImport_def isTypeScript_def endsWith_def ns_MemberExpression_def
        ns_Program_exit_def set_add_def inline_diagnostic_def summary_diagnostic_def
        propertiesString_def summary_fix_def allNeededNamedImports_def newImportStatement_def
        new_Set_def srt)
qed

subsection \<open>Evidence invariant\<close>

lemma set_fold_set_add: "set (fold set_add xs acc) = set xs \<union> set acc"
  by (induction xs arbitrary: acc) (auto simp: set_add_def)

lemma set_new_Set: "set (new_Set xs) = set xs"
  by (simp add: new_Set_def set_fold_set_add)

lemma set_add_nonempty: "set_add x s \<noteq> []"
  by (auto simp: set_add_def)

lemma evidence_ok_push:
  "evidence_ok st \<Longrightarrow> \<not> isUsedAsNamespace imp \<Longrightarrow> evidence_ok (push_import lib imp st)"
  by (induction lib imp st rule: push_import.induct) (auto simp: evidence_ok_def)

lemma evidence_ok_ImportDeclaration:
  "evidence_ok st \<Longrightarrow> evidence_ok (ns_ImportDeclaration opts filename nd st)"
  by (auto simp: ns_ImportDeclaration_def evidence_ok_push split: option.splits)

lemma evidence_mark_import:
  "list_all (\<lambda>imp. isUsedAsNamespace imp \<longrightarrow> namespacedProperties imp \<noteq> []) imps \<Longrightarrow>
   list_all (\<lambda>imp. isUsedAsNamespace imp \<longrightarrow> namespacedProperties imp \<noteq> [])
     (mark_import objectName propertyName imps)"
  by (induction imps) (auto simp: set_add_nonempty)

lemma evidence_ok_member_loop:
  "evidence_ok st \<Longrightarrow> member_loop nd objectName propertyName st = (st', ds) \<Longrightarrow>
   evidence_ok st' \<and> list_all (\<lambda>d. is_replacement (d_fix d)) ds"
proof (induction st arbitrary: st' ds)
  case Nil
  then show ?case by simp
next
  case (Cons a st)
  obtain lib imps where a: "a = (lib, imps)" by (cases a)
  show ?case
  proof (cases "find (\<lambda>imp. localName imp = objectName) imps")
    case None
    obtain r ds0 where r: "member_loop nd objectName propertyName st = (r, ds0)"
      by (cases "member_loop nd objectName propertyName st")
    from Cons.prems have "evidence_ok st" by (simp add: evidence_ok_def)
    from Cons.IH [OF this r] Cons.prems show ?thesis
      by (auto simp: a None r evidence_ok_def)
  next
    case (Some imp)
    with Cons.prems show ?thesis
      by (auto simp: a evidence_ok_def evidence_mark_import inline_diagnostic_def)
  qed
qed

lemma evidence_ok_MemberExpression:
  "evidence_ok st \<Longrightarrow> ns_MemberExpression nd st = (st', ds) \<Longrightarrow>
   evidence_ok st' \<and> list_all (\<lambda>d. is_replacement (d_fix d)) ds"
  by (auto simp: ns_MemberExpression_def split: expr.splits dest: evidence_ok_member_loop)

lemma evidence_ok_step:
  "evidence_ok st \<Longrightarrow> list_all (\<lambda>d. is_replacement (d_fix d)) out \<Longrightarrow>
   ns_step opts filename (st, out) e = (st', out') \<Longrightarrow>
   evidence_ok st' \<and> list_all (\<lambda>d. is_replacement (d_fix d)) out'"
  by (cases e) (auto simp: evidence_ok_ImportDeclaration split: prod.splits
      dest: evidence_ok_MemberExpression)

lemma evidence_ok_foldl:
  "evidence_ok (fst s) \<Longrightarrow> list_all (\<lambda>d. is_replacement (d_fix d)) (snd s) \<Longrightarrow>
   evidence_ok (fst (foldl (ns_step opts filename) s evs))
   \<and> list_all (\<lambda>d. is_replacement (d_fix d)) (snd (foldl (ns_step opts filename) s evs))"
proof (induction evs arbitrary: s)
  case Nil
  then show ?case by simp
next
  case (Cons e evs)
  obtain st out where s: "s = (st, out)" by (cases s)
  obtain st' out' where n: "ns_step opts filename (st, out) e = (st', out')"
    by (cases "ns_step opts filename (st, out) e")
  from evidence_ok_step [OF _ _ n] Cons.prems
  have "evidence_ok st' \<and> list_all (\<lambda>d. is_replacement (d_fix d)) out'"
    by (simp add: s)
  with Cons.IH [of "(st', out')"] show ?case
    by (simp add: s n)
qed

lemma summary_fix_replacement:
  "namespacedProperties imp \<noteq> [] \<Longrightarrow>
   summary_fix lib imp = ReplaceText (i_range (node imp)) (newImportStatement lib imp)"
proof -
  assume "namespacedProperties imp \<noteq> []"
  then have "set (allNeededNamedImports imp) \<noteq> {}"
    by (simp add: allNeededNamedImports_def set_new_Set)
  then show ?thesis
    by (auto simp: summary_fix_def)
qed

lemma exit_replacements:
  "evidence_ok st \<Longrightarrow> list_all (\<lambda>d. is_replacement (d_fix d)) (ns_Program_exit st)"
  by (induction st)
     (auto simp: ns_Program_exit_def evidence_ok_def list_all_iff summary_diagnostic_def
        summary_fix_replacement)

text \<open>
  Claim C9. After any traversal, every record marked as used has a non-empty set of observed
  properties (the mark is only set together with the insertion of a property name). Hence
  every fix attached to a reported diagnostic is a text replacement: the summary fix of a
  used record is the replacement of its import declaration by \<open>newImportStatement\<close>,
  and the removal branch is never taken.
\<close>

theorem ns_summary_never_removes:
  "evidence_ok (fst (ns_traverse opts filename evs))
   \<and> list_all (\<lambda>d. is_replacement (d_fix d)) (ns_run opts filename evs)
   \<and> list_all (\<lambda>(lib, imps). list_all (\<lambda>imp. isUsedAsNamespace imp \<longrightarrow>
        d_fix (summary_diagnostic lib imp)
          = Some (ReplaceText (i_range (node imp)) (newImportStatement lib imp))) imps)
       (fst (ns_traverse opts filename evs))"
proof -
  have inv: "evidence_ok (fst (ns_traverse opts filename evs))
      \<and> list_all (\<lambda>d. is_replacement (d_fix d)) (snd (ns_traverse opts filename evs))"
    unfolding ns_traverse_def by (rule evidence_ok_foldl) (simp_all add: evidence_ok_def)
  then have ex: "list_all (\<lambda>d. is_replacement (d_fix d))
      (ns_Program_exit (fst (ns_traverse opts filename evs)))"
    by (simp add: exit_replacements)
  have run: "list_all (\<lambda>d. is_replacement (d_fix d)) (ns_run opts filename evs)"
    using inv ex by (cases "ns_traverse opts filename evs") (simp add: ns_run_def)
  have "list_all (\<lambda>(lib, imps). list_all (\<lambda>imp. isUsedAsNamespace imp \<longrightarrow>
        d_fix (summary_diagnostic lib imp)
          = Some (ReplaceText (i_range (node imp)) (newImportStatement lib imp))) imps)
       (fst (ns_traverse opts filename evs))"
    using inv
    by (auto simp: evidence_ok_def list_all_iff summary_diagnostic_def summary_fix_replacement)
  with inv run show ?thesis by simp
qed

theorem ns_summary_never_removes_witness:
  "d_fix (last (ns_run \<lparr> allowedLibraries = None, targetLibraries = None,
                      checkTypeScriptTypes = None, allowTypeNamespaces = None \<rparr> ''a.js''
          [EImport \<lparr> i_range = (0, 24), source_value = ''lodash'',
                 specifiers = [ImportDefaultSpecifier ''_''], importKind = None \<rparr>,
           EMember \<lparr> m_range = (40, 45), object = Identifier ''_'', property = Identifier ''map'' \<rparr>]))
   = Some (ReplaceText (0, 24)
        (''import { map } from '' @ [CHR 0x27] @ ''lodash'' @ [CHR 0x27] @ '';''))
   \<and> list_all (\<lambda>dg. is_replacement (d_fix dg))
       (ns_run \<lparr> allowedLibraries = None, targetLibraries = None,
                      checkTypeScriptTypes = None, allowTypeNamespaces = None \<rparr> ''a.js''
          [EImport \<lparr> i_range = (0, 24), source_value = ''lodash'',
                 specifiers = [ImportDefaultSpecifier ''_''], importKind = None \<rparr>,
           EMember \<lparr> m_range = (40, 45), object = Identifier ''_'', property = Identifier ''map'' \<rparr>])"
  using ns_summary_never_removes [of "\<lparr> allowedLibraries = None, targetLibraries = None,
                      checkTypeScriptTypes = None, allowTypeNamespaces = None \<rparr>" "''a.js''"
          "[EImport \<lparr> i_range = (0, 24), source_value = ''lodash'',
                 specifiers = [ImportDefaultSpecifier ''_''], importKind = None \<rparr>,
           EMember \<lparr> m_range = (40, 45), object = Identifier ''_'', property = Identifier ''map'' \<rparr>]"]
  by (simp add: ns_run_def ns_traverse_def ns_ImportDeclaration_def shouldCheckLibrary_def
        opt_allowedLibraries_def shouldCheckAllLibraries_def opt_targetLibraries_def
        isTypeOnlyImport_def isTypeScript_def endsWith_def ns_MemberExpression_def
        ns_Program_exit_def set_add_def
        inline_diagnostic_def summary_diagnostic_def propertiesString_def summary_fix_def
        allNeededNamedImports_def newImportStatement_def new_Set_def)

subsection \<open>The summary fix applied to the text\<close>

text \<open>An import declaration without a default specifier creates no record.\<close>

lemma ns_ImportDeclaration_no_default:
  "find is_default (specifiers nd) = None \<Longrightarrow> ns_ImportDeclaration opts filename nd st = st"
  by (simp add: ns_ImportDeclaration_def)

text \<open>
  Claim C8 on a module name that contains a single quote. The file is
  \<open>import _ from "a';import _ from 'b"; _.map(xs);\<close>: one import declaration, of the
  module \<open>a';import _ from 'b\<close>, and one access. The summary fix writes the module name
  between single quotes as it is, so its text is \<open>import { map } from 'a';import _ from 'b';\<close>.
  Applied to the text of the file, the fix gives
  \<open>import { map } from 'a';import _ from 'b'; _.map(xs);\<close>, which has two import
  declarations, the second a default import of \<open>_\<close>. On that file the rule creates a
  record for \<open>_\<close> again and reports the access and the import.
\<close>

theorem ns_fix_quote_in_module_name:
  "ns_run \<lparr> allowedLibraries = None, targetLibraries = None, checkTypeScriptTypes = None,
             allowTypeNamespaces = None \<rparr> ''a.js''
     [EImport \<lparr> i_range = (0, 36), source_value = quote_module,
                specifiers = [ImportDefaultSpecifier ''_''], importKind = None \<rparr>,
      EMember \<lparr> m_range = (37, 42), object = Identifier ''_'', property = Identifier ''map'' \<rparr>]
   = [\<lparr> anchor = (37, 42), messageId = ''noNamespaceUsage'',
        data = [(''objectName'', ''_''), (''propertyName'', ''map''),
                (''libraryName'', quote_module)],
        d_fix = Some (ReplaceText (37, 42) ''map'') \<rparr>,
      \<lparr> anchor = (0, 36), messageId = ''noDefaultImportForNamespace'',
        data = [(''importName'', ''_''), (''libraryName'', quote_module),
                (''properties'', ''map'')],
        d_fix = Some (ReplaceText (0, 36)
                  (''import { map } from '' @ [CHR 0x27] @ ''a'' @ [CHR 0x27]
                     @ '';import _ from '' @ [CHR 0x27] @ ''b'' @ [CHR 0x27] @ '';'')) \<rparr>]
   \<and> apply_fix
         (ReplaceText (0, 36)
            (''import { map } from '' @ [CHR 0x27] @ ''a'' @ [CHR 0x27]
               @ '';import _ from '' @ [CHR 0x27] @ ''b'' @ [CHR 0x27] @ '';''))
         (''import _ from '' @ [CHR 0x22] @ quote_module @ [CHR 0x22] @ ''; _.map(xs);'')
       = ''import { map } from '' @ [CHR 0x27] @ ''a'' @ [CHR 0x27]
           @ '';import _ from '' @ [CHR 0x27] @ ''b'' @ [CHR 0x27] @ ''; _.map(xs);''
   \<and> ns_run \<lparr> allowedLibraries = None, targetLibraries = None, checkTypeScriptTypes = None,
             allowTypeNamespaces = None \<rparr> ''a.js''
     [EImport \<lparr> i_range = (0, 24), source_value = ''a'',
                specifiers = [ImportSpecifier ''map'' ''map''], importKind = None \<rparr>,
      EImport \<lparr> i_range = (24, 42), source_value = ''b'',
                specifiers = [ImportDefaultSpecifier ''_''], importKind = None \<rparr>,
      EMember \<lparr> m_range = (43, 48), object = Identifier ''_'', property = Identifier ''map'' \<rparr>]
   = [\<lparr> anchor = (43, 48), messageId = ''noNamespaceUsage'',
        data = [(''objectName'', ''_''), (''propertyName'', ''map''), (''libraryName'', ''b'')],
        d_fix = Some (ReplaceText (43, 48) ''map'') \<rparr>,
      \<lparr> anchor = (24, 42), messageId = ''noDefaultImportForNamespace'',
        data = [(''importName'', ''_''), (''libraryName'', ''b''), (''properties'', ''map'')],
        d_fix = Some (ReplaceText (24, 42)
                  (''import { map } from '' @ [CHR 0x27] @ ''b'' @ [CHR 0x27] @ '';'')) \<rparr>]"
  by (simp add: ns_run_def ns_traverse_def ns_ImportDeclaration_def shouldCheckLibrary_def
        opt_allowedLibraries_def shouldCheckAllLibraries_def opt_targetLibraries_def
        isTypeOnlyImport_def isTypeScript_def endsWith_def ns_MemberExpression_def
        ns_Program_exit_def set_add_def inline_diagnostic_def summary_diagnostic_def
        propertiesString_def summary_fix_def allNeededNamedImports_def newImportStatement_def
        new_Set_def quote_module_def)

subsection \<open>Type-only imports\<close>

text \<open>
  Claim C2, as the code has it. In a TypeScript file, with \<open>checkTypeScriptTypes\<close> not
  switched off and \<open>allowTypeNamespaces\<close> switched on, the import visitor returns
  early on a type-only import: no record is created, so no evidence is tracked for it, and
  the diagnostics of the file are those of the file without that declaration.
\<close>

theorem ns_type_import_skipped:
  assumes "isTypeScript filename" and "opt_checkTypeScriptTypes opts"
    and "opt_allowTypeNamespaces opts" and "importKind d = Some ''type''"
  shows "ns_ImportDeclaration opts filename d st = st
         \<and> ns_traverse opts filename (pre @ EImport d # post)
             = ns_traverse opts filename (pre @ post)
         \<and> ns_run opts filename (pre @ EImport d # post) = ns_run opts filename (pre @ post)"
proof -
  from assms have n: "\<not> records_import opts filename d"
    by (simp add: records_import_def isTypeOnlyImport_def)
  have a: "ns_ImportDeclaration opts filename d st = st"
    by (rule ns_ImportDeclaration_skip [OF n])
  have b: "ns_traverse opts filename (pre @ EImport d # post)
             = ns_traverse opts filename (pre @ post)"
    using n by (simp add: ns_traverse_def ns_step_skip)
  from a b show ?thesis by (simp add: ns_run_def)
qed

theorem ns_type_import_skipped_witness:
  "ns_run \<lparr> allowedLibraries = None, targetLibraries = None,
             checkTypeScriptTypes = Some True, allowTypeNamespaces = Some True \<rparr> ''a.ts''
      [EImport \<lparr> i_range = (0, 27), source_value = ''lib'',
                 specifiers = [ImportDefaultSpecifier ''T''], importKind = Some ''type'' \<rparr>,
       EMember \<lparr> m_range = (40, 45), object = Identifier ''T'', property = Identifier ''Foo'' \<rparr>]
   = []"
proof -
  let ?opts = "\<lparr> allowedLibraries = None, targetLibraries = None,
             checkTypeScriptTypes = Some True, allowTypeNamespaces = Some True \<rparr>"
  let ?d = "\<lparr> i_range = (0, 27), source_value = ''lib'',
                 specifiers = [ImportDefaultSpecifier ''T''], importKind = Some ''type'' \<rparr>"
  have h1: "isTypeScript ''a.ts''" by (simp add: isTypeScript_def endsWith_def)
  have h2: "opt_checkTypeScriptTypes ?opts" by (simp add: opt_checkTypeScriptTypes_def)
  have h3: "opt_allowTypeNamespaces ?opts" by (simp add: opt_allowTypeNamespaces_def)
  have h4: "importKind ?d = Some ''type''" by simp
  show ?thesis
    using ns_type_import_skipped [OF h1 h2 h3 h4, of "[]" "[]"]
    by (simp add: ns_run_def ns_traverse_def ns_MemberExpression_def ns_Program_exit_def)
qed

text \<open>
  The claim as stated fails twice on \<open>import type T from 'lib'\<close> followed by
  \<open>T.Foo\<close> in \<open>a.ts\<close>. With both options on, the state after the traversal is empty:
  the import is not recorded and the access leaves no evidence. With
  \<open>checkTypeScriptTypes\<close> off, the import is recorded as a value import and both
  diagnostics are reported, the summary fix dropping the \<open>type\<close> keyword.
\<close>

theorem ns_type_import_counterexample:
  "fst (ns_traverse \<lparr> allowedLibraries = None, targetLibraries = None,
             checkTypeScriptTypes = Some True, allowTypeNamespaces = Some True \<rparr> ''a.ts''
      [EImport \<lparr> i_range = (0, 27), source_value = ''lib'',
                 specifiers = [ImportDefaultSpecifier ''T''], importKind = Some ''type'' \<rparr>,
       EMember \<lparr> m_range = (40, 45), object = Identifier ''T'', property = Identifier ''Foo'' \<rparr>])
     = []
   \<and> ns_run \<lparr> allowedLibraries = None, targetLibraries = None,
             checkTypeScriptTypes = Some False, allowTypeNamespaces = None \<rparr> ''a.ts''
      [EImport \<lparr> i_range = (0, 27), source_value = ''lib'',
                 specifiers = [ImportDefaultSpecifier ''T''], importKind = Some ''type'' \<rparr>,
       EMember \<lparr> m_range = (40, 45), object = Identifier ''T'', property = Identifier ''Foo'' \<rparr>]
     = [\<lparr> anchor = (40, 45), messageId = ''noNamespaceUsage'',
          data = [(''objectName'', ''T''), (''propertyName'', ''Foo''), (''libraryName'', ''lib'')],
          d_fix = Some (ReplaceText (40, 45) ''Foo'') \<rparr>,
        \<lparr> anchor = (0, 27), messageId = ''noDefaultImportForNamespace'',
          data = [(''importName'', ''T''), (''libraryName'', ''lib''), (''properties'', ''Foo'')],
          d_fix = Some (ReplaceText (0, 27)
                    (''import { Foo } from '' @ [CHR 0x27] @ ''lib'' @ [CHR 0x27] @ '';'')) \<rparr>]"
  by (simp add: ns_run_def ns_traverse_def ns_ImportDeclaration_def shouldCheckLibrary_def
        opt_allowedLibraries_def shouldCheckAllLibraries_def opt_targetLibraries_def
        isTypeOnlyImport_def isTypeScript_def endsWith_def ns_MemberExpression_def
        ns_Program_exit_def set_add_def opt_checkTypeScriptTypes_def opt_allowTypeNamespaces_def
        inline_diagnostic_def summary_diagnostic_def propertiesString_def summary_fix_def
        allNeededNamedImports_def newImportStatement_def new_Set_def)

section \<open>Properties of no-arrow-components\<close>

text \<open>
  Claim C4 on \<open>const Foo = () => <div/>, bar = () => 1;\<close> at the top level of \<open>a.js\<close>,
  default options. The component diagnostic for \<open>Foo\<close> is followed by \<open>return\<close>, which
  leaves the visitor: \<open>bar\<close> is never looked at, although alone it is reported as a
  top-level arrow function. The same happens after the exemption of
  \<open>const Foo = memo(() => <div/>), bar = () => 1;\<close>, where nothing is reported.
\<close>

theorem arrow_return_skips_rest:
  "arrow_VariableDeclaration \<lparr> allowArrowFunctions = None, checkTypeScript = None \<rparr> ''a.js''
     \<lparr> parent_type = ''Program'',
       declarations =
         [\<lparr> d_range = (6, 24), d_id = Identifier ''Foo'',
            init = Some (ArrowFunctionExpression JSXElement) \<rparr>,
          \<lparr> d_range = (26, 39), d_id = Identifier ''bar'',
            init = Some (ArrowFunctionExpression (OtherNode ''Literal'')) \<rparr>] \<rparr>
   = [\<lparr> anchor = (6, 24), messageId = ''arrowComponent'', data = [(''name'', ''Foo'')],
        d_fix = None \<rparr>]
   \<and> arrow_VariableDeclaration \<lparr> allowArrowFunctions = None, checkTypeScript = None \<rparr> ''a.js''
     \<lparr> parent_type = ''Program'',
       declarations =
         [\<lparr> d_range = (6, 30), d_id = Identifier ''Foo'',
            init = Some (CallExpression [ArrowFunctionExpression JSXElement]) \<rparr>,
          \<lparr> d_range = (32, 45), d_id = Identifier ''bar'',
            init = Some (ArrowFunctionExpression (OtherNode ''Literal'')) \<rparr>] \<rparr>
   = []
   \<and> arrow_VariableDeclaration \<lparr> allowArrowFunctions = None, checkTypeScript = None \<rparr> ''a.js''
     \<lparr> parent_type = ''Program'',
       declarations =
         [\<lparr> d_range = (26, 39), d_id = Identifier ''bar'',
            init = Some (ArrowFunctionExpression (OtherNode ''Literal'')) \<rparr>] \<rparr>
   = [\<lparr> anchor = (26, 39), messageId = ''arrowFunction'', data = [(''name'', ''bar'')],
        d_fix = None \<rparr>]"
  by (simp add: arrow_VariableDeclaration_def isReactComponent_def isUpperAZ_def isAlphaNum_def
      isTypeScript_def endsWith_def arrow_report_def opt_allowArrowFunctions_def)

text \<open>
  Claim C5, as the code has it. A PascalCase name makes a component by naming alone, except
  in a TypeScript file with \<open>checkTypeScript\<close> on when the initializer is an arrow function
  whose body is a block: then the binding is a component exactly when a statement of the
  block is a return of a JSX element.
\<close>

theorem arrow_component_classification:
  assumes "isPascalCase name"
  shows "isReactComponent opts filename nd name =
           (if isTypeScript filename \<and> opt_checkTypeScript opts
            then (case init nd of
                    Some (ArrowFunctionExpression (BlockStatement stmts)) \<Rightarrow>
                      list_ex returns_jsx stmts
                  | _ \<Rightarrow> True)
            else True)"
  using assms
  by (simp add: isReactComponent_def split: option.splits js_node.splits)

theorem arrow_component_classification_witness:
  "isReactComponent \<lparr> allowArrowFunctions = None, checkTypeScript = None \<rparr> ''Foo.tsx''
       \<lparr> d_range = (6, 40), d_id = Identifier ''Foo'',
         init = Some (ArrowFunctionExpression
                  (BlockStatement [OtherNode ''ExpressionStatement'',
                                   ReturnStatement (Some JSXElement)])) \<rparr> ''Foo''
   \<and> isReactComponent \<lparr> allowArrowFunctions = None, checkTypeScript = None \<rparr> ''Foo.jsx''
       \<lparr> d_range = (6, 34), d_id = Identifier ''Foo'',
         init = Some (ArrowFunctionExpression
                  (BlockStatement [ReturnStatement (Some (OtherNode ''Literal''))])) \<rparr> ''Foo''"
proof -
  have h: "isPascalCase ''Foo''"
    by (simp add: isUpperAZ_def isAlphaNum_def)
  show ?thesis
    using arrow_component_classification [OF h]
    by (simp add: isTypeScript_def endsWith_def opt_checkTypeScript_def)
qed

text \<open>
  The claim as stated fails on \<open>const Foo = () => { return null; };\<close> in \<open>Foo.tsx\<close>: the
  name is PascalCase, the binding is not classified as a component and is reported as a
  plain function. With the body \<open>null\<close> and no block, the same binding is a component.
\<close>

theorem arrow_block_without_jsx_counterexample:
  "\<not> isReactComponent \<lparr> allowArrowFunctions = None, checkTypeScript = None \<rparr> ''Foo.tsx''
       \<lparr> d_range = (6, 34), d_id = Identifier ''Foo'',
         init = Some (ArrowFunctionExpression
                  (BlockStatement [ReturnStatement (Some (OtherNode ''Literal''))])) \<rparr> ''Foo''
   \<and> isPascalCase ''Foo''
   \<and> arrow_VariableDeclaration \<lparr> allowArrowFunctions = None, checkTypeScript = None \<rparr> ''Foo.tsx''
     \<lparr> parent_type = ''Program'',
       declarations =
         [\<lparr> d_range = (6, 34), d_id = Identifier ''Foo'',
            init = Some (ArrowFunctionExpression
                  (BlockStatement [ReturnStatement (Some (OtherNode ''Literal''))])) \<rparr>] \<rparr>
   = [\<lparr> anchor = (6, 34), messageId = ''tsArrowFunction'', data = [(''name'', ''Foo'')],
        d_fix = None \<rparr>]
   \<and> isReactComponent \<lparr> allowArrowFunctions = None, checkTypeScript = None \<rparr> ''Foo.tsx''
       \<lparr> d_range = (6, 20), d_id = Identifier ''Foo'',
         init = Some (ArrowFunctionExpression (OtherNode ''Literal'')) \<rparr> ''Foo''"
  by (simp add: arrow_VariableDeclaration_def isReactComponent_def isUpperAZ_def isAlphaNum_def
      isTypeScript_def endsWith_def arrow_report_def opt_allowArrowFunctions_def
      opt_checkTypeScript_def)

section \<open>Properties of enforce-path-alias\<close>

text \<open>Unfolding the path functions on concrete paths.\<close>

lemmas path_eval = path_resolve_def normalizeString_def path_relative_def segments_def
  path_dirname_def path_join_def path_normalize_def

subsection \<open>Files the rule does not look at\<close>

lemma alias_run_NoVisitors: "alias_run NoVisitors evs = Inr []"
  by (induction evs) simp_all

lemma find_None_list_all: "list_all (\<lambda>x. \<not> P x) xs \<Longrightarrow> find P xs = None"
  by (induction xs) simp_all

text \<open>
  Claim C10. When the file is a declaration file and \<open>includeDeclarationFiles\<close> is off,
  or when its name ends in none of the supported extensions, \<open>create\<close> returns the
  empty visitor object, whatever the file system \<open>w\<close> holds: no configuration is read,
  no pattern is built, and a traversal of the file reports nothing.
\<close>

theorem alias_create_unsupported_file:
  assumes "(isDeclarationFile (getFilename ctx) \<and> \<not> opt_includeDeclarationFiles opts)
           \<or> list_all (\<lambda>ext. \<not> endsWith (getFilename ctx) ext) (opt_supportedExtensions opts)"
  shows "alias_create opts ctx w = Inr NoVisitors
         \<and> alias_lint opts ctx w evs = Inr []"
proof -
  from assms have "alias_create opts ctx w = Inr NoVisitors"
    by (auto simp: alias_create_def find_None_list_all)
  then show ?thesis
    by (simp add: alias_lint_def alias_run_NoVisitors)
qed

theorem alias_create_unsupported_file_witness:
  "alias_create \<lparr> mode = None, configFile = None, paths = None, baseUrl = None,
                  fallbackBaseUrl = None, exclude = None, supportedExtensions = None,
                  includeDeclarationFiles = None \<rparr>
      \<lparr> getFilename = ''/proj/src/types.d.ts'', getCwd = ''/proj'', process_cwd = ''/proj'' \<rparr>
      project_world = Inr NoVisitors
   \<and> alias_create \<lparr> mode = None, configFile = None, paths = None, baseUrl = None,
                  fallbackBaseUrl = None, exclude = None, supportedExtensions = None,
                  includeDeclarationFiles = None \<rparr>
      \<lparr> getFilename = ''/proj/README.md'', getCwd = ''/proj'', process_cwd = ''/proj'' \<rparr>
      project_world = Inr NoVisitors"
proof -
  let ?opts = "\<lparr> mode = None, configFile = None, paths = None, baseUrl = None,
                  fallbackBaseUrl = None, exclude = None, supportedExtensions = None,
                  includeDeclarationFiles = None \<rparr>"
  let ?c1 = "\<lparr> getFilename = ''/proj/src/types.d.ts'', getCwd = ''/proj'', process_cwd = ''/proj'' \<rparr>"
  let ?c2 = "\<lparr> getFilename = ''/proj/README.md'', getCwd = ''/proj'', process_cwd = ''/proj'' \<rparr>"
  have h1: "(isDeclarationFile (getFilename ?c1) \<and> \<not> opt_includeDeclarationFiles ?opts)
           \<or> list_all (\<lambda>ext. \<not> endsWith (getFilename ?c1) ext) (opt_supportedExtensions ?opts)"
    by (simp add: isDeclarationFile_def endsWith_def opt_includeDeclarationFiles_def)
  have h2: "(isDeclarationFile (getFilename ?c2) \<and> \<not> opt_includeDeclarationFiles ?opts)
           \<or> list_all (\<lambda>ext. \<not> endsWith (getFilename ?c2) ext) (opt_supportedExtensions ?opts)"
    by (simp add: endsWith_def opt_supportedExtensions_def)
  show ?thesis
    using alias_create_unsupported_file [OF h1, of project_world "[]"]
      alias_create_unsupported_file [OF h2, of project_world "[]"]
    by simp
qed

subsection \<open>Merged path mappings\<close>













subsection \<open>Reports and their fixes\<close>

lemma matching_alias_find:
  "matching_alias pcwd resolved patterns =
     map_option (\<lambda>pattern. slashes (p_alias pattern @ ''/''
                    @ path_relative pcwd (targetPath pattern) resolved))
       (find (\<lambda>pattern. startsWith resolved (targetPath pattern)) patterns)"
  by (induction patterns) simp_all

lemma alias_check_cases:
  "alias_check env kind lit importPath = []
   \<or> (\<exists>r. alias_check env kind lit importPath = [r] \<and> alias_fix_of env lit importPath r)"
proof (cases "findMatchingAlias env importPath")
  case None
  then show ?thesis
    by (simp add: alias_check_def)
next
  case (Some al)
  then obtain pattern where
    p: "find (\<lambda>pattern. startsWith (resolvedImportPath env importPath) (targetPath pattern))
          (e_aliasPatterns env) = Some pattern"
    and al: "al = slashes (p_alias pattern @ ''/''
                    @ path_relative (process_cwd (e_ctx env)) (targetPath pattern)
                        (resolvedImportPath env importPath))"
    by (auto simp: findMatchingAlias_def matching_alias_find)
  show ?thesis
    by (simp add: alias_check_def Some alias_fix_of_def p al quoted_def)
qed

lemma alias_check_report:
  assumes "rs = alias_check env kind lit importPath" and "r \<in> set rs"
  shows "rs = [r] \<and> alias_fix_of env lit importPath r"
  using alias_check_cases [of env kind lit importPath] assms by auto

lemma slashes_no_backslash: "CHR 0x5C \<notin> set (slashes s)"
  by (auto simp: slashes_def)

text \<open>
  Claim C3, as the code has it. A report of the import visitor or of the call visitor is the
  only report of that visit; it is anchored at the string literal of the path, and its fix
  replaces that literal by the alias string between single quotes, where the alias string
  is the alias of the first matching pattern, a slash and the relative remainder, with
  every backslash turned into a slash. Applied to the text of the file, the fix changes
  the literal and nothing else; the quotes written are single quotes, whatever the
  literal's own quotes were.
\<close>

theorem alias_fix_replaces_literal:
  "(alias_ImportDeclaration env nd = Inr rs \<and> r \<in> set rs \<longrightarrow>
      rs = [r] \<and> (\<exists>importPath. l_value (source nd) = StringValue importPath
                     \<and> alias_fix_of env (source nd) importPath r))
   \<and> (alias_CallExpression env c = Inr rs \<and> r \<in> set rs \<longrightarrow>
      rs = [r] \<and> (\<exists>lit importPath. arguments c = [Literal lit]
                     \<and> l_value lit = StringValue importPath
                     \<and> alias_fix_of env lit importPath r))
   \<and> (alias_fix_of env lit importPath r
        \<and> l_range lit = (length pre, length pre + length (l_raw lit)) \<longrightarrow>
      (\<exists>suggestedAlias. CHR 0x5C \<notin> set suggestedAlias
         \<and> apply_fix (a_fix r) (pre @ l_raw lit @ post)
             = pre @ [CHR 0x27] @ suggestedAlias @ [CHR 0x27] @ post))"
proof (intro conjI impI)
  assume a: "alias_ImportDeclaration env nd = Inr rs \<and> r \<in> set rs"
  then obtain importPath where v: "l_value (source nd) = StringValue importPath"
    by (cases "l_value (source nd)") (simp_all add: alias_ImportDeclaration_def)
  with a have rs: "rs = alias_check env ''import'' (source nd) importPath" and "r \<in> set rs"
    by (auto simp: alias_ImportDeclaration_def)
  from alias_check_report [OF this] v
  show "rs = [r]"
    and "\<exists>importPath. l_value (source nd) = StringValue importPath
           \<and> alias_fix_of env (source nd) importPath r"
    by simp_all
next
  assume a: "alias_CallExpression env c = Inr rs \<and> r \<in> set rs"
  then obtain lit importPath where args: "arguments c = [Literal lit]"
    and v: "l_value lit = StringValue importPath"
    and rs: "rs = alias_check env ''require'' lit importPath"
    by (auto simp: alias_CallExpression_def split: option.splits list.splits call_argument.splits
        if_splits literal_value.splits)
  from a have "r \<in> set rs"
    by simp
  from alias_check_report [OF rs this] args v
  show "rs = [r]"
    and "\<exists>lit importPath. arguments c = [Literal lit] \<and> l_value lit = StringValue importPath
           \<and> alias_fix_of env lit importPath r"
    by simp_all
next
  assume a: "alias_fix_of env lit importPath r
      \<and> l_range lit = (length pre, length pre + length (l_raw lit))"
  then obtain pattern where
    p: "find (\<lambda>pattern. startsWith (resolvedImportPath env importPath) (targetPath pattern))
          (e_aliasPatterns env) = Some pattern"
    by (auto simp: alias_fix_of_def split: option.splits)
  let ?al = "slashes (p_alias pattern @ ''/''
                    @ path_relative (process_cwd (e_ctx env)) (targetPath pattern)
                        (resolvedImportPath env importPath))"
  from a p have f: "a_fix r = ReplaceText (l_range lit) ([CHR 0x27] @ ?al @ [CHR 0x27])"
    by (simp add: alias_fix_of_def)
  have "apply_fix (a_fix r) (pre @ l_raw lit @ post) = pre @ [CHR 0x27] @ ?al @ [CHR 0x27] @ post"
    using a by (simp add: f)
  moreover have "CHR 0x5C \<notin> set ?al"
    by (rule slashes_no_backslash)
  ultimately show "\<exists>suggestedAlias. CHR 0x5C \<notin> set suggestedAlias
         \<and> apply_fix (a_fix r) (pre @ l_raw lit @ post)
             = pre @ [CHR 0x27] @ suggestedAlias @ [CHR 0x27] @ post"
    by blast
qed

subsection \<open>The rule on the example project\<close>

text \<open>Unfolding the rule on concrete options and imports.\<close>

lemmas alias_eval = alias_create_def isDeclarationFile_def opt_includeDeclarationFiles_def
  opt_supportedExtensions_def endsWith_def startsWith_def detectBaseUrl_def getPathMappings_def
  RegExp_throws_def is_syntax_character_def first_target_def opt_mode_def or_string_def opt_excludeFolders_def
  project_context_def alias_ImportDeclaration_def alias_check_def shouldUseAlias_def
  resolvedImportPath_def srcPath_def isDirectChildOfSrc_def findMatchingAlias_def
  slashes_def quoted_def import_literal_def import_text_def

lemma base_relative_env:
  "alias_create base_relative_options project_context w =
     Inr (Visitors \<lparr> e_ctx = project_context, e_mode = ''direct-children'',
                e_finalBaseUrl = ''./src'', e_excludeFolders = [],
                e_aliasPatterns = [\<lparr> p_alias = ''@'', targetPath = ''/proj/src'' \<rparr>] \<rparr>)"
  by (simp add: base_relative_options_def alias_eval path_eval)

lemma documented_env:
  "alias_create documented_options project_context w =
     Inr (Visitors \<lparr> e_ctx = project_context, e_mode = ''direct-children'',
                e_finalBaseUrl = ''./src'', e_excludeFolders = [],
                e_aliasPatterns = [\<lparr> p_alias = ''@'', targetPath = ''/proj/src/src'' \<rparr>] \<rparr>)"
  by (simp add: documented_options_def alias_eval path_eval)

lemma base_relative_helpers:
  "alias_ImportDeclaration
     \<lparr> e_ctx = project_context, e_mode = ''direct-children'',
       e_finalBaseUrl = ''./src'', e_excludeFolders = [],
       e_aliasPatterns = [\<lparr> p_alias = ''@'', targetPath = ''/proj/src'' \<rparr>] \<rparr>
     \<lparr> source = import_literal q ''../utils/helpers'' \<rparr>
   = Inr [\<lparr> a_anchor = (18, 36),
           a_message = ''Use path alias '' @ [CHR 0x27] @ ''@/utils/helpers'' @ [CHR 0x27]
              @ '' instead of relative import '' @ [CHR 0x27] @ ''../utils/helpers'' @ [CHR 0x27],
           a_fix = ReplaceText (18, 36) ([CHR 0x27] @ ''@/utils/helpers'' @ [CHR 0x27]) \<rparr>]"
  by (simp add: alias_eval path_eval)

theorem alias_fix_replaces_literal_witness:
  "apply_fix (ReplaceText (18, 36) ([CHR 0x27] @ ''@/utils/helpers'' @ [CHR 0x27]))
      (import_text (CHR 0x27) ''../utils/helpers'')
   = import_text (CHR 0x27) ''@/utils/helpers''"
proof -
  let ?env = "\<lparr> e_ctx = project_context, e_mode = ''direct-children'',
       e_finalBaseUrl = ''./src'', e_excludeFolders = [],
       e_aliasPatterns = [\<lparr> p_alias = ''@'', targetPath = ''/proj/src'' \<rparr>] \<rparr>"
  let ?lit = "import_literal (CHR 0x27) ''../utils/helpers''"
  let ?r = "\<lparr> a_anchor = (18, 36),
           a_message = ''Use path alias '' @ [CHR 0x27] @ ''@/utils/helpers'' @ [CHR 0x27]
              @ '' instead of relative import '' @ [CHR 0x27] @ ''../utils/helpers'' @ [CHR 0x27],
           a_fix = ReplaceText (18, 36) ([CHR 0x27] @ ''@/utils/helpers'' @ [CHR 0x27]) \<rparr>"
  have v: "alias_ImportDeclaration ?env \<lparr> source = ?lit \<rparr> = Inr [?r] \<and> ?r \<in> set [?r]"
    by (simp add: base_relative_helpers)
  have rg: "l_range ?lit = (length ''import { h } from '',
                length ''import { h } from '' + length (l_raw ?lit))"
    by (simp add: import_literal_def)
  from alias_fix_replaces_literal
         [of ?env "\<lparr> source = ?lit \<rparr>" "[?r]" ?r "\<lparr> callee_name = Some ''require'', arguments = [Literal ?lit] \<rparr>" ?lit "''../utils/helpers''"
             "''import { h } from ''" "'';''"] v rg
  show ?thesis
    by (simp add: import_text_def import_literal_def)
qed

text \<open>
  The claim as stated fails on \<open>import { h } from "../utils/helpers";\<close> in
  \<open>/proj/src/components/Button.tsx\<close>: the import is reported, and the fix turns the
  double quotes of the literal into single quotes.
\<close>

theorem alias_fix_quotes_counterexample:
  "alias_lint base_relative_options project_context project_world
        [AImport \<lparr> source = import_literal (CHR 0x22) ''../utils/helpers'' \<rparr>]
     = Inr [\<lparr> a_anchor = (18, 36),
           a_message = ''Use path alias '' @ [CHR 0x27] @ ''@/utils/helpers'' @ [CHR 0x27]
              @ '' instead of relative import '' @ [CHR 0x27] @ ''../utils/helpers'' @ [CHR 0x27],
           a_fix = ReplaceText (18, 36) ([CHR 0x27] @ ''@/utils/helpers'' @ [CHR 0x27]) \<rparr>]
   \<and> apply_fix (ReplaceText (18, 36) ([CHR 0x27] @ ''@/utils/helpers'' @ [CHR 0x27]))
        (import_text (CHR 0x22) ''../utils/helpers'')
       = import_text (CHR 0x27) ''@/utils/helpers''
   \<and> import_text (CHR 0x27) ''@/utils/helpers'' \<noteq> import_text (CHR 0x22) ''@/utils/helpers''"
  by (simp add: alias_lint_def base_relative_env base_relative_helpers) (simp add: import_text_def)

subsection \<open>Mode direct-children\<close>

text \<open>
  Claim C6 on its own example: file \<open>/proj/src/components/Button.tsx\<close>, base directory
  \<open>./src\<close>, mapping \<open>@/*\<close> to \<open>./src/*\<close>, import of \<open>../utils/helpers\<close>. The target
  of the mapping is resolved against the base directory, which gives the pattern target
  \<open>/proj/src/src\<close>. The import passes \<open>shouldUseAlias\<close>, no pattern target is a prefix
  of \<open>/proj/src/utils/helpers\<close>, and nothing is reported, whatever the file system holds.
\<close>

theorem alias_documented_example_not_flagged:
  "alias_create documented_options project_context w =
     Inr (Visitors \<lparr> e_ctx = project_context, e_mode = ''direct-children'',
                e_finalBaseUrl = ''./src'', e_excludeFolders = [],
                e_aliasPatterns = [\<lparr> p_alias = ''@'', targetPath = ''/proj/src/src'' \<rparr>] \<rparr>)
   \<and> shouldUseAlias
        \<lparr> e_ctx = project_context, e_mode = ''direct-children'',
          e_finalBaseUrl = ''./src'', e_excludeFolders = [],
          e_aliasPatterns = [\<lparr> p_alias = ''@'', targetPath = ''/proj/src/src'' \<rparr>] \<rparr>
        ''../utils/helpers''
   \<and> alias_lint documented_options project_context w
        [AImport \<lparr> source = import_literal q ''../utils/helpers'' \<rparr>] = Inr []"
  by (simp add: alias_lint_def documented_env) (simp add: alias_eval path_eval)

text \<open>
  With the mapping written relative to the base directory, \<open>@/*\<close> to \<open>./*\<close>, the same
  import is reported and fixed to \<open>'@/utils/helpers'\<close>; an import two levels below the
  base is not reported, and neither is one into a child folder whose name starts with two
  dots, which the test \<open>startsWith("..")\<close> takes for a path out of the base.
\<close>

lemma alias_direct_children_examples:
  "alias_lint base_relative_options project_context w
        [AImport \<lparr> source = import_literal q ''../utils/helpers'' \<rparr>]
     = Inr [\<lparr> a_anchor = (18, 36),
           a_message = ''Use path alias '' @ [CHR 0x27] @ ''@/utils/helpers'' @ [CHR 0x27]
              @ '' instead of relative import '' @ [CHR 0x27] @ ''../utils/helpers'' @ [CHR 0x27],
           a_fix = ReplaceText (18, 36) ([CHR 0x27] @ ''@/utils/helpers'' @ [CHR 0x27]) \<rparr>]
   \<and> alias_lint base_relative_options project_context w
        [AImport \<lparr> source = import_literal q ''../utils/deep/helpers'' \<rparr>] = Inr []
   \<and> alias_lint base_relative_options project_context w
        [AImport \<lparr> source = import_literal q ''../..cache/helpers'' \<rparr>] = Inr []"
  by (simp add: alias_lint_def base_relative_env base_relative_helpers) (simp add: alias_eval path_eval)

end
